theory Spec2Isabelle
  imports Main "HOL-Library.Word"
begin

section \<open>JavaScript strings\<close>

text \<open>
  A JavaScript string is a sequence of 16-bit code units; \<open>indexOf\<close>, \<open>slice\<close>,
  \<open>split\<close> and the regular expressions of the source all count code units.
  \<open>ascii\<close> embeds an ASCII literal of the source.
\<close>

type_synonym jschar = "16 word"
type_synonym jsstring = "jschar list"

definition ascii :: "string \<Rightarrow> jsstring" where
  "ascii s = map (\<lambda>c. word_of_nat (of_char c)) s"

text \<open>\<open>s.startsWith(t)\<close>.\<close>

fun startsWith :: "jsstring \<Rightarrow> jsstring \<Rightarrow> bool" where
  "startsWith s [] = True"
| "startsWith [] (y # ys) = False"
| "startsWith (x # xs) (y # ys) = (x = y \<and> startsWith xs ys)"

text \<open>
  \<open>s.indexOf(t)\<close>: the least position at which \<open>t\<close> occurs in \<open>s\<close>, and \<open>-1\<close>
  when there is none.
\<close>

fun indexOf :: "jsstring \<Rightarrow> jsstring \<Rightarrow> int" where
  "indexOf [] t = (if t = [] then 0 else -1)"
| "indexOf (x # xs) t =
     (if startsWith (x # xs) t then 0
      else (let i = indexOf xs t in if i < 0 then -1 else i + 1))"

text \<open>\<open>s.includes(t)\<close> (\<open>includes\<close> is a keyword of Isabelle).\<close>

fun includes_str :: "jsstring \<Rightarrow> jsstring \<Rightarrow> bool" where
  "includes_str [] t = (t = [])"
| "includes_str (x # xs) t = (startsWith (x # xs) t \<or> includes_str xs t)"

text \<open>\<open>s.slice(i)\<close> for an index \<open>i \<ge> 0\<close>; a negative index counts from the end.\<close>

definition slice :: "jsstring \<Rightarrow> int \<Rightarrow> jsstring" where
  "slice s i = (if i < 0 then drop (length s - nat (- i)) s else drop (nat i) s)"

section \<open>Regular expressions\<close>

text \<open>
  The regular expressions of the source use literals, alternation, an optional group,
  \<open>\d\<close>, \<open>\s\<close>, \<open>*\<close> and bounded repetition, and no anchors, flags or
  back-references. They are matched here with Brzozowski derivatives.
\<close>

datatype rx =
    Empty
  | Eps
  | Lit jschar
  | Digit
  | Space
  | Seq rx rx
  | Alt rx rx
  | Star rx

definition Opt :: "rx \<Rightarrow> rx" where
  "Opt r = Alt r Eps"

fun Str :: "jsstring \<Rightarrow> rx" where
  "Str [] = Eps"
| "Str [c] = Lit c"
| "Str (c # cs) = Seq (Lit c) (Str cs)"

fun Rep :: "nat \<Rightarrow> rx \<Rightarrow> rx" where
  "Rep 0 r = Eps"
| "Rep (Suc n) r = Seq r (Rep n r)"

text \<open>\<open>\d\<close> is \<open>[0-9]\<close>.\<close>

definition is_digit :: "jschar \<Rightarrow> bool" where
  "is_digit c = (0x30 \<le> c \<and> c \<le> 0x39)"

text \<open>\<open>\s\<close> is the white space and the line terminators of ECMAScript.\<close>

definition is_space :: "jschar \<Rightarrow> bool" where
  "is_space c =
     (c = 0x09 \<or> c = 0x0A \<or> c = 0x0B \<or> c = 0x0C \<or> c = 0x0D \<or> c = 0x20 \<or>
      c = 0xA0 \<or> c = 0x1680 \<or> (0x2000 \<le> c \<and> c \<le> 0x200A) \<or>
      c = 0x2028 \<or> c = 0x2029 \<or> c = 0x202F \<or> c = 0x205F \<or> c = 0x3000 \<or>
      c = 0xFEFF)"

fun nullable :: "rx \<Rightarrow> bool" where
  "nullable Empty = False"
| "nullable Eps = True"
| "nullable (Lit c) = False"
| "nullable Digit = False"
| "nullable Space = False"
| "nullable (Seq r s) = (nullable r \<and> nullable s)"
| "nullable (Alt r s) = (nullable r \<or> nullable s)"
| "nullable (Star r) = True"

fun deriv :: "jschar \<Rightarrow> rx \<Rightarrow> rx" where
  "deriv c Empty = Empty"
| "deriv c Eps = Empty"
| "deriv c (Lit d) = (if c = d then Eps else Empty)"
| "deriv c Digit = (if is_digit c then Eps else Empty)"
| "deriv c Space = (if is_space c then Eps else Empty)"
| "deriv c (Seq r s) =
     (if nullable r then Alt (Seq (deriv c r) s) (deriv c s) else Seq (deriv c r) s)"
| "deriv c (Alt r s) = Alt (deriv c r) (deriv c s)"
| "deriv c (Star r) = Seq (deriv c r) (Star r)"

text \<open>
  \<open>match_end r s\<close> is the length of the shortest prefix of \<open>s\<close> that \<open>r\<close> matches,
  if there is one. The one pattern whose match length is used, the opening token of
  \<open>split\<close>, has at most one match at a position, so that the shortest match is the
  match ECMAScript finds.
\<close>

fun match_end :: "rx \<Rightarrow> jsstring \<Rightarrow> nat option" where
  "match_end r [] = (if nullable r then Some 0 else None)"
| "match_end r (c # cs) =
     (if nullable r then Some 0 else map_option Suc (match_end (deriv c r) cs))"

text \<open>\<open>r.test(s)\<close> for a regular expression without flags: \<open>r\<close> matches somewhere in \<open>s\<close>.\<close>

fun test :: "rx \<Rightarrow> jsstring \<Rightarrow> bool" where
  "test r [] = nullable r"
| "test r (c # cs) = (match_end r (c # cs) \<noteq> None \<or> test r cs)"

text \<open>
  \<open>s.split(r)\<close> for a regular expression without capture groups: the scan of
  ECMAScript's \<open>split\<close>, where \<open>cur\<close> is the part being collected; an empty match at
  the start of a part does not cut.
\<close>

function split_go :: "rx \<Rightarrow> jsstring \<Rightarrow> jsstring \<Rightarrow> jsstring list" where
  "split_go r cur [] = [cur]"
| "split_go r cur (c # cs) =
     (case match_end r (c # cs) of
        None \<Rightarrow> split_go r (cur @ [c]) cs
      | Some 0 \<Rightarrow> (if cur = [] then split_go r [c] cs else cur # split_go r [c] cs)
      | Some (Suc n) \<Rightarrow> cur # split_go r [] (drop n cs))"
  by pat_completeness auto
termination
  by (relation "measure (\<lambda>(r, cur, s). length s)") auto

definition split :: "jsstring \<Rightarrow> rx \<Rightarrow> jsstring list" where
  "split s r = (if s = [] then (if nullable r then [] else [[]]) else split_go r [] s)"

text \<open>
  The strings a regular expression matches, against which the matcher is checked below.
\<close>

inductive_set star :: "jsstring set \<Rightarrow> jsstring set" for A :: "jsstring set" where
  star_empty: "[] \<in> star A"
| star_step: "u \<in> A \<Longrightarrow> v \<in> star A \<Longrightarrow> u @ v \<in> star A"

fun lang :: "rx \<Rightarrow> jsstring set" where
  "lang Empty = {}"
| "lang Eps = {[]}"
| "lang (Lit c) = {[c]}"
| "lang Digit = {[c] |c. is_digit c}"
| "lang Space = {[c] |c. is_space c}"
| "lang (Seq r s) = {u @ v |u v. u \<in> lang r \<and> v \<in> lang s}"
| "lang (Alt r s) = lang r \<union> lang s"
| "lang (Star r) = star (lang r)"

section \<open>JSON.stringify of the citation items\<close>

text \<open>
  \<open>JSON.stringify\<close> quotes a string as ECMAScript's QuoteJSONString does: the short
  escapes, \<open>\u\<close> with four lower-case hexadecimal digits for the other control
  characters and for a surrogate that is not part of a pair, and every other code unit
  as it is.
\<close>

definition hex_digit :: "nat \<Rightarrow> jschar" where
  "hex_digit n = (if n < 10 then word_of_nat (0x30 + n) else word_of_nat (0x57 + n))"

definition UnicodeEscape :: "jschar \<Rightarrow> jsstring" where
  "UnicodeEscape c =
     [0x5C, 0x75,
      hex_digit (unat c div 4096 mod 16), hex_digit (unat c div 256 mod 16),
      hex_digit (unat c div 16 mod 16), hex_digit (unat c mod 16)]"

definition is_high_surrogate :: "jschar \<Rightarrow> bool" where
  "is_high_surrogate c = (0xD800 \<le> c \<and> c \<le> 0xDBFF)"

definition is_low_surrogate :: "jschar \<Rightarrow> bool" where
  "is_low_surrogate c = (0xDC00 \<le> c \<and> c \<le> 0xDFFF)"

definition quote_unit :: "jschar \<Rightarrow> jsstring" where
  "quote_unit c =
     (if c = 0x08 then [0x5C, 0x62]
      else if c = 0x09 then [0x5C, 0x74]
      else if c = 0x0A then [0x5C, 0x6E]
      else if c = 0x0C then [0x5C, 0x66]
      else if c = 0x0D then [0x5C, 0x72]
      else if c = 0x22 then [0x5C, 0x22]
      else if c = 0x5C then [0x5C, 0x5C]
      else if c < 0x20 \<or> is_high_surrogate c \<or> is_low_surrogate c then UnicodeEscape c
      else [c])"

fun quote_units :: "jsstring \<Rightarrow> jsstring" where
  "quote_units [] = []"
| "quote_units [c] = quote_unit c"
| "quote_units (c # d # cs) =
     (if is_high_surrogate c \<and> is_low_surrogate d then c # d # quote_units cs
      else quote_unit c @ quote_units (d # cs))"

definition QuoteJSONString :: "jsstring \<Rightarrow> jsstring" where
  "QuoteJSONString s = [0x22] @ quote_units s @ [0x22]"

text \<open>\<open>xs.join(sep)\<close>.\<close>

fun join :: "jsstring list \<Rightarrow> jsstring \<Rightarrow> jsstring" where
  "join [] sep = []"
| "join [x] sep = x"
| "join (x # y # ys) sep = x @ sep @ join (y # ys) sep"

section \<open>The document variant: citation candidates\<close>

text \<open>
  A retrieval hit as \<open>ChatAPIDoc\<close> reads it. \<open>source\<close> and \<open>deptName\<close> may be
  missing (\<open>None\<close>); a missing and an empty string are both falsy.
\<close>

record RelevantDocument =
  pageContent :: jsstring
  source :: "jsstring option"
  deptName :: "jsstring option"
  doc_id :: jsstring

definition truthy :: "jsstring option \<Rightarrow> bool" where
  "truthy v = (case v of None \<Rightarrow> False | Some s \<Rightarrow> s \<noteq> [])"

text \<open>\<open>v || d\<close> for an optional string \<open>v\<close> and a string \<open>d\<close>.\<close>

definition or_else :: "jsstring option \<Rightarrow> jsstring \<Rightarrow> jsstring" where
  "or_else v d = (case v of None \<Rightarrow> d | Some s \<Rightarrow> if s \<noteq> [] then s else d)"

record CitationData =
  cd_name :: "jsstring option"
  cd_id :: jsstring
  cd_source :: "jsstring option"

record CitationItem =
  item_name :: jsstring
  item_id :: jsstring

definition citationData_of :: "RelevantDocument list \<Rightarrow> CitationData list" where
  "citationData_of relevantDocuments =
     map (\<lambda>doc. \<lparr>cd_name = deptName doc, cd_id = doc_id doc, cd_source = source doc\<rparr>)
       (filter (\<lambda>doc. truthy (source doc) \<and> truthy (deptName doc)) relevantDocuments)"

definition validCitationData_of :: "CitationData list \<Rightarrow> CitationItem list" where
  "validCitationData_of citationData =
     (let validCitationData =
            map (\<lambda>item. \<lparr>item_name = or_else (cd_name item) (ascii ''Unknown Document''),
                           item_id = cd_id item\<rparr>) citationData
      in if length validCitationData = 0
         then validCitationData @
              [\<lparr>item_name = ascii ''Document Not Found'', item_id = ascii ''unknown''\<rparr>]
         else validCitationData)"

definition stringify_item :: "CitationItem \<Rightarrow> jsstring" where
  \<open>stringify_item item =
     ascii ''{"name":'' @ QuoteJSONString (item_name item) @
     ascii '',"id":'' @ QuoteJSONString (item_id item) @ ascii ''}''\<close>

definition JSON_stringify :: "CitationItem list \<Rightarrow> jsstring" where
  "JSON_stringify items = ascii ''['' @ join (map stringify_item items) (ascii '','') @ ascii '']''"

definition newCitation_of :: "CitationData list \<Rightarrow> jsstring" where
  "newCitation_of citationData =
     ascii ''{% citation items='' @ JSON_stringify (validCitationData_of citationData) @
     ascii '' /%}''"

section \<open>The document variant: the stream rewriter\<close>

text \<open>
  \<open>customTransformer\<close> keeps one string, \<open>buffer\<close>. \<open>transform\<close> is its
  \<open>transform(chunk, controller)\<close> on the decoded text of a chunk: it returns the
  strings handed to \<open>controller.enqueue\<close>, in order and before their encoding as
  UTF-8, and the buffer it leaves.
\<close>

definition citation_open_rx :: rx where
  "citation_open_rx = Seq (Str (ascii ''{%'')) (Seq (Star Space) (Str (ascii ''citation'')))"

definition transform :: "CitationData list \<Rightarrow> jsstring \<Rightarrow> jsstring \<Rightarrow> jsstring list \<times> jsstring" where
  "transform citationData buffer0 text =
     (let buffer = buffer0 @ text in
      if includes_str buffer (ascii ''{% citation'') then
        if \<not> includes_str buffer (ascii ''/%}'') then ([], buffer)
        else
          let parts = split buffer citation_open_rx in
          if length parts > 1 then
            let first = (if parts ! 0 \<noteq> [] then [parts ! 0] else []);
                citationPart = parts ! 1;
                citationEnd = indexOf citationPart (ascii ''/%}'') + 3
            in if citationEnd > 2 then
                 let rest = slice citationPart citationEnd
                 in (first @ [newCitation_of citationData] @ (if rest \<noteq> [] then [rest] else []), [])
               else (first, buffer)
          else ([], buffer)
      else ([text], []))"

text \<open>
  A chunk ends within an opening token: it ends with a part of \<open>{% citation\<close>
  that is neither empty nor the whole token.
\<close>

definition endsWith :: "jsstring \<Rightarrow> jsstring \<Rightarrow> bool" where
  "endsWith s t = startsWith (rev s) (rev t)"

definition ends_with_partial_open :: "jsstring \<Rightarrow> bool" where
  "ends_with_partial_open chunk =
     list_ex (\<lambda>k. endsWith chunk (take k (ascii ''{% citation'')))
       [1..<length (ascii ''{% citation'')]"

text \<open>\<open>flush(controller)\<close>, at the end of the stream.\<close>

definition flush :: "jsstring \<Rightarrow> jsstring list" where
  "flush buffer = (if buffer \<noteq> [] then [buffer] else [])"

text \<open>The chunks of a stream, one \<open>transform\<close> after the other.\<close>

fun run_transform :: "CitationData list \<Rightarrow> jsstring \<Rightarrow> jsstring list \<Rightarrow> jsstring list \<times> jsstring" where
  "run_transform citationData buffer [] = ([], buffer)"
| "run_transform citationData buffer (chunk # chunks) =
     (let (out1, buffer1) = transform citationData buffer chunk;
          (out2, buffer2) = run_transform citationData buffer1 chunks
      in (out1 @ out2, buffer2))"

text \<open>What \<open>pipeThrough(customTransformer)\<close> forwards for a whole stream.\<close>

definition customTransformer :: "CitationData list \<Rightarrow> jsstring list \<Rightarrow> jsstring list" where
  "customTransformer citationData chunks =
     (let (out, buffer) = run_transform citationData [] chunks in out @ flush buffer)"

section \<open>The web variant: the query enricher\<close>

text \<open>
  The literals of the patterns, as code units: U+4ECA U+65E5 is the word for today,
  U+672C U+65E5 this day, U+73FE U+5728 now, U+6700 U+65B0 latest, U+6628 U+65E5
  yesterday, U+4E00 U+6628 U+65E5 the day before yesterday, U+4ECA U+9031 this week,
  U+4ECA U+6708 this month, U+4ECA U+5E74 this year, U+6700 U+8FD1 and U+76F4 U+8FD1
  recently; U+5E74, U+6708 and U+65E5 are the year, month and day signs.
\<close>

definition nen :: jschar where "nen = 0x5E74"
definition gatsu :: jschar where "gatsu = 0x6708"
definition nichi :: jschar where "nichi = 0x65E5"
definition ima :: jschar where "ima = 0x4ECA"

definition kyou :: jsstring where "kyou = [0x4ECA, 0x65E5]"
definition honjitsu :: jsstring where "honjitsu = [0x672C, 0x65E5]"
definition genzai :: jsstring where "genzai = [0x73FE, 0x5728]"
definition saishin :: jsstring where "saishin = [0x6700, 0x65B0]"
definition kinou :: jsstring where "kinou = [0x6628, 0x65E5]"
definition ototoi :: jsstring where "ototoi = [0x4E00, 0x6628, 0x65E5]"
definition konshuu :: jsstring where "konshuu = [0x4ECA, 0x9031]"
definition kongetsu :: jsstring where "kongetsu = [0x4ECA, 0x6708]"
definition kotoshi :: jsstring where "kotoshi = [0x4ECA, 0x5E74]"
definition saikin :: jsstring where "saikin = [0x6700, 0x8FD1]"
definition chokkin :: jsstring where "chokkin = [0x76F4, 0x8FD1]"

text \<open>\<open>DATE_PATTERNS\<close>, in the order of the source.\<close>

definition DATE_PATTERNS :: "rx list" where
  "DATE_PATTERNS =
     [Alt (Str kyou) (Alt (Str honjitsu) (Alt (Str genzai) (Str saishin))),
      Seq (Opt (Seq (Rep 4 Digit) (Lit nen)))
        (Seq (Seq Digit (Opt Digit))
          (Seq (Lit gatsu) (Seq (Seq Digit (Opt Digit)) (Lit nichi)))),
      Alt (Str kinou) (Str ototoi),
      Alt (Str konshuu) (Alt (Str kongetsu) (Str kotoshi)),
      Alt (Str saikin) (Str chokkin)]"

text \<open>The pattern of the second test, which \<open>ChatAPIWeb\<close> uses for the freshness too.\<close>

definition IMMEDIACY_PATTERN :: rx where
  "IMMEDIACY_PATTERN = Alt (Str saishin) (Alt (Str genzai) (Alt (Lit ima) (Str honjitsu)))"

text \<open>A whole number in a template literal: its decimal digits, with a sign when negative.\<close>

fun digits_of :: "nat \<Rightarrow> jsstring" where
  "digits_of n =
     (if n < 10 then [word_of_nat (0x30 + n)]
      else digits_of (n div 10) @ [word_of_nat (0x30 + n mod 10)])"

definition Number_toString :: "int \<Rightarrow> jsstring" where
  "Number_toString i = (if i < 0 then ascii ''-'' @ digits_of (nat (- i)) else digits_of (nat i))"

text \<open>
  A valid \<open>Date\<close>: its time value, in milliseconds since the epoch, and the number of
  milliseconds by which the local time of the host is ahead of UTC at that time. The
  fields of the local time are those of the time value moved by the offset; the ISO
  string is in UTC.
\<close>

record JSDate =
  time_value :: int
  tz_offset :: int

definition msPerDay :: int where
  "msPerDay = 86400000"

text \<open>
  The year, the month (from 1) and the day of the month of a day number, counted from
  1970-01-01, in the proleptic Gregorian calendar.
\<close>

definition civil_from_days :: "int \<Rightarrow> int \<times> int \<times> int" where
  "civil_from_days days =
     (let z = days + 719468;
          era = z div 146097;
          doe = z - era * 146097;
          yoe = (doe - doe div 1460 + doe div 36524 - doe div 146096) div 365;
          y = yoe + era * 400;
          doy = doe - (365 * yoe + yoe div 4 - yoe div 100);
          mp = (5 * doy + 2) div 153;
          d = doy - (153 * mp + 2) div 5 + 1;
          m = (if mp < 10 then mp + 3 else mp - 9)
      in (if m \<le> 2 then y + 1 else y, m, d))"

definition getFullYear :: "JSDate \<Rightarrow> int" where
  "getFullYear t = fst (civil_from_days ((time_value t + tz_offset t) div msPerDay))"

definition getMonth :: "JSDate \<Rightarrow> int" where
  "getMonth t = fst (snd (civil_from_days ((time_value t + tz_offset t) div msPerDay))) - 1"

definition getDate :: "JSDate \<Rightarrow> int" where
  "getDate t = snd (snd (civil_from_days ((time_value t + tz_offset t) div msPerDay)))"

text \<open>A number in a field of the ISO format, filled with zeros to a width.\<close>

definition pad :: "nat \<Rightarrow> int \<Rightarrow> jsstring" where
  "pad width i =
     (let ds = digits_of (nat i) in replicate (width - length ds) 0x30 @ ds)"

text \<open>
  The date of the ISO format: four digits for the years 0 to 9999, a sign and six
  digits for the others.
\<close>

definition iso_date :: "int \<Rightarrow> int \<Rightarrow> int \<Rightarrow> jsstring" where
  "iso_date y m d =
     (if 0 \<le> y \<and> y \<le> 9999 then pad 4 y
      else (if y < 0 then ascii ''-'' else ascii ''+'') @ pad 6 (abs y)) @
     ascii ''-'' @ pad 2 m @ ascii ''-'' @ pad 2 d"

definition toISOString :: "JSDate \<Rightarrow> jsstring" where
  "toISOString t =
     (let (y, m, d) = civil_from_days (time_value t div msPerDay);
          ms = time_value t mod msPerDay
      in iso_date y m d @ ascii ''T'' @ pad 2 (ms div 3600000) @ ascii '':'' @
         pad 2 (ms div 60000 mod 60) @ ascii '':'' @ pad 2 (ms div 1000 mod 60) @
         ascii ''.'' @ pad 3 (ms mod 1000) @ ascii ''Z'')"

text \<open>\<open>s.split('T')[0]\<close>: the text before the first \<open>T\<close>, or all of \<open>s\<close>.\<close>

definition split_T_0 :: "jsstring \<Rightarrow> jsstring" where
  "split_T_0 s = takeWhile (\<lambda>c. c \<noteq> 0x54) s"

definition optimizeSearchQuery :: "jsstring \<Rightarrow> JSDate \<Rightarrow> jsstring" where
  "optimizeSearchQuery message jpDateTime =
     (let query = message;
          hasDatePattern = list_ex (\<lambda>pattern. test pattern message) DATE_PATTERNS;
          query =
            (if hasDatePattern then
               (let year = getFullYear jpDateTime;
                    month = getMonth jpDateTime + 1
                in query @ ascii '' '' @ Number_toString year @ [nen] @
                   Number_toString month @ [gatsu])
             else query);
          query =
            (if test IMMEDIACY_PATTERN message then
               (let jpDate = split_T_0 (toISOString jpDateTime)
                in query @ ascii '' after:'' @ jpDate)
             else query)
      in query)"

datatype freshness = Day | Week

definition freshness_of :: "jsstring \<Rightarrow> freshness" where
  "freshness_of content = (if test IMMEDIACY_PATTERN content then Day else Week)"

section \<open>Exceptions and responses\<close>

text \<open>
  A thrown value is an \<open>Error\<close>, with its name and message, or something else. A call
  that may throw returns \<open>thrown + 'a\<close>, \<open>Inl\<close> being the throw.
\<close>

datatype thrown = ErrorObject (err_name: jsstring) (err_message: jsstring) | OtherValue

text \<open>\<open>Error.prototype.toString\<close>.\<close>

definition Error_toString :: "jsstring \<Rightarrow> jsstring \<Rightarrow> jsstring" where
  "Error_toString nm msg =
     (if nm = [] then msg else if msg = [] then nm else nm @ ascii '': '' @ msg)"

section \<open>The web variant: the evidence collector\<close>

text \<open>An entry of \<open>searchResult.webPages.value\<close>; every field but the URL may be missing.\<close>

record SearchPage =
  url :: jsstring
  name :: "jsstring option"
  snippet :: "jsstring option"
  datePublished :: "jsstring option"

record WebPageContent =
  wp_url :: jsstring
  wp_title :: jsstring
  wp_snippet :: jsstring
  wp_content :: jsstring
  wp_publishDate :: "jsstring option"

text \<open>
  What the browser session of one page does: for each call of the source on
  \<open>puppeteer\<close>, the browser and the page instance, whether it throws and what it
  returns. \<open>close_r\<close> is the \<open>browser.close()\<close> of the normal path, \<open>close_catch_r\<close> the
  one in the inner \<open>catch\<close>.
\<close>

record browser_session =
  launch_r :: "thrown option"
  newPage_r :: "thrown option"
  goto_r :: "thrown option"
  pageText_r :: "thrown + jsstring"
  publishDate_r :: "thrown + jsstring option"
  close_r :: "thrown option"
  close_catch_r :: "thrown option"

text \<open>
  What the platform decides: \<open>new URL(u).toString()\<close>, which throws on an invalid
  URL, \<open>new Date(d).toLocaleString("ja-JP", {timeZone: "Asia/Tokyo"})\<close>, and the
  message of the \<open>TypeError\<close> that \<open>new Response\<close> throws for a status text it
  does not accept.
\<close>

record platform =
  URL_toString :: "jsstring \<Rightarrow> thrown + jsstring"
  toLocaleString_ja :: "jsstring \<Rightarrow> jsstring"
  invalid_statusText :: jsstring

text \<open>\<open>page.datePublished ? new Date(page.datePublished).toLocaleString(...) : null\<close>.\<close>

definition search_date :: "platform \<Rightarrow> SearchPage \<Rightarrow> jsstring option" where
  "search_date pf page =
     (case datePublished page of
        None \<Rightarrow> None
      | Some d \<Rightarrow> if d \<noteq> [] then Some (toLocaleString_ja pf d) else None)"

text \<open>The body of the inner \<open>try\<close>.\<close>

definition scrape_inner :: "platform \<Rightarrow> browser_session \<Rightarrow> SearchPage \<Rightarrow> thrown + WebPageContent" where
  "scrape_inner pf b page =
     (case goto_r b of Some e \<Rightarrow> Inl e | None \<Rightarrow>
      case pageText_r b of Inl e \<Rightarrow> Inl e | Inr pageText \<Rightarrow>
      case publishDate_r b of Inl e \<Rightarrow> Inl e | Inr publishDate \<Rightarrow>
      case close_r b of Some e \<Rightarrow> Inl e | None \<Rightarrow>
      case URL_toString pf (url page) of Inl e \<Rightarrow> Inl e | Inr cleanUrl \<Rightarrow>
        Inr \<lparr>wp_url = cleanUrl,
             wp_title = or_else (name page) (ascii ''Untitled''),
             wp_snippet = or_else (snippet page) [],
             wp_content = take 2000 pageText,
             wp_publishDate = (if truthy publishDate then publishDate else search_date pf page)\<rparr>)"

text \<open>The body of the outer \<open>try\<close>: the inner \<open>catch\<close> closes the browser and throws again.\<close>

definition scrape_outer :: "platform \<Rightarrow> browser_session \<Rightarrow> SearchPage \<Rightarrow> thrown + WebPageContent" where
  "scrape_outer pf b page =
     (case launch_r b of Some e \<Rightarrow> Inl e | None \<Rightarrow>
      case newPage_r b of Some e \<Rightarrow> Inl e | None \<Rightarrow>
      case scrape_inner pf b page of
        Inr r \<Rightarrow> Inr r
      | Inl error \<Rightarrow> (case close_catch_r b of Some e \<Rightarrow> Inl e | None \<Rightarrow> Inl error))"

text \<open>The function mapped over the search results, with its outer \<open>catch\<close>.\<close>

definition scrape_page :: "platform \<Rightarrow> browser_session \<Rightarrow> SearchPage \<Rightarrow> WebPageContent" where
  "scrape_page pf b page =
     (case scrape_outer pf b page of
        Inr r \<Rightarrow> r
      | Inl error \<Rightarrow>
          \<lparr>wp_url = url page,
           wp_title = or_else (name page) (ascii ''Untitled''),
           wp_snippet = or_else (snippet page) [],
           wp_content = or_else (snippet page) [],
           wp_publishDate = search_date pf page\<rparr>)"

text \<open>
  \<open>Promise.all\<close> over the results keeps their order; \<open>sessions i\<close> is the browser
  session of the \<open>i\<close>-th result.
\<close>

definition webPageContents_of ::
  "platform \<Rightarrow> (nat \<Rightarrow> browser_session) \<Rightarrow> SearchPage list \<Rightarrow> WebPageContent list" where
  "webPageContents_of pf sessions pages =
     map (\<lambda>(i, page). scrape_page pf (sessions i) page) (zip [0..<length pages] pages)"

text \<open>A page fetch fails when one of the calls of its \<open>try\<close> throws.\<close>

definition fetch_fails :: "platform \<Rightarrow> browser_session \<Rightarrow> SearchPage \<Rightarrow> bool" where
  "fetch_fails pf b page =
     (launch_r b \<noteq> None \<or> newPage_r b \<noteq> None \<or> goto_r b \<noteq> None \<or> isl (pageText_r b) \<or>
      isl (publishDate_r b) \<or> close_r b \<noteq> None \<or> isl (URL_toString pf (url page)))"

section \<open>The request handlers\<close>

subsection \<open>Messages, the history store and the completion API\<close>

datatype role = system | user | assistant

record ChatMessage =
  role :: role
  content :: jsstring

text \<open>
  The messages of a completion request. The fixed texts of the prompts are not spelled
  out: a message is its template and the values the template is filled with.
\<close>

datatype prompt_message =
    System_simple
  | System_doc
  | System_web
  | History ChatMessage
  | Context_prompt jsstring jsstring
  | Citation_hint "CitationData list"
  | Web_prompt jsstring "ChatMessage list" jsstring "WebPageContent list"

record request =
  messages :: "prompt_message list"
  model :: jsstring
  max_tokens :: "nat option"

text \<open>
  The state outside the handler: the messages of the thread in the history store, each
  with the context stored beside it, and the requests the completion API has received.
\<close>

record world =
  history :: "(ChatMessage \<times> jsstring option) list"
  create_calls :: "request list"

record PromptGPTProps =
  chatAPIModel :: jsstring
  chatDoc :: jsstring

record session =
  lastHumanMessage :: jsstring
  chatThread_id :: jsstring

text \<open>
  The collaborators of the handlers, which are not part of these files: for each call,
  whether it throws and what it returns. \<open>create\<close> returns the text chunks of the
  completion stream.
\<close>

record env =
  initAndGuardChatSession :: "PromptGPTProps \<Rightarrow> thrown + session"
  OpenAIInstance :: "thrown option"
  userHashedId :: "thrown + jsstring"
  getMessages_r :: "thrown option"
  addMessage_r :: "(ChatMessage \<times> jsstring option) list \<Rightarrow> ChatMessage \<Rightarrow> thrown option"
  similaritySearchVectorWithScore :: "jsstring \<Rightarrow> nat \<Rightarrow> jsstring \<Rightarrow> thrown + RelevantDocument list"
  create :: "request \<Rightarrow> thrown + jsstring list"
  SearchWeb :: "jsstring \<Rightarrow> freshness \<Rightarrow> nat \<Rightarrow> thrown + SearchPage list option"
  browser_sessions :: "nat \<Rightarrow> browser_session"
  platform_fns :: platform
  getJapanDateTime :: JSDate
  currentTimeStr :: jsstring

text \<open>
  Modelled from the spec: \<open>getMessages(sessionId, userId)\<close> of the history store
  client, giving the ordered list of the messages of the thread. The store is not part
  of these files; it is taken as append-only, and a call that throws leaves it as it
  was.
\<close>

definition getMessages :: "env \<Rightarrow> world \<Rightarrow> thrown + ChatMessage list" where
  "getMessages ev w =
     (case getMessages_r ev of Some e \<Rightarrow> Inl e | None \<Rightarrow> Inr (map fst (history w)))"

text \<open>
  Modelled from the spec: \<open>addMessage(message, optionalContext?)\<close> of the history
  store client, appending the message with its context to the thread.
\<close>

definition addMessage :: "env \<Rightarrow> ChatMessage \<Rightarrow> jsstring option \<Rightarrow> world \<Rightarrow> thrown option \<times> world" where
  "addMessage ev msg ctx w =
     (case addMessage_r ev (history w) msg of
        Some e \<Rightarrow> (Some e, w)
      | None \<Rightarrow> (None, w\<lparr>history := history w @ [(msg, ctx)]\<rparr>))"

text \<open>\<open>openAI.chat.completions.create\<close>: the request reaches the API, which answers or throws.\<close>

definition completions_create :: "env \<Rightarrow> request \<Rightarrow> world \<Rightarrow> (thrown + jsstring list) \<times> world" where
  "completions_create ev req w = (create ev req, w\<lparr>create_calls := create_calls w @ [req]\<rparr>)"

text \<open>
  A response is a \<open>StreamingTextResponse\<close>, with the chunks of its body and the
  \<open>onCompletion\<close> callback that runs when the stream has ended, or a plain
  \<open>Response\<close> with its body, status and status text.
\<close>

datatype response =
    StreamingTextResponse "jsstring list" "world \<Rightarrow> thrown option \<times> world"
  | Response jsstring nat jsstring

text \<open>
  \<open>new Response(body, {status, statusText})\<close> for a status from 200 to 599. The
  status text is a byte string that has to be a reason phrase: a text with a code unit
  above 255, or with a control character other than the tab, is not accepted, and the
  constructor throws a \<open>TypeError\<close>.
\<close>

definition valid_statusText :: "jsstring \<Rightarrow> bool" where
  "valid_statusText s =
     list_all (\<lambda>c. c = 0x09 \<or> (0x20 \<le> c \<and> c \<le> 0x7E) \<or> (0x80 \<le> c \<and> c \<le> 0xFF)) s"

definition new_Response :: "platform \<Rightarrow> jsstring \<Rightarrow> nat \<Rightarrow> jsstring \<Rightarrow> thrown + response" where
  "new_Response pf body status statusText =
     (if valid_statusText statusText then Inr (Response body status statusText)
      else Inl (ErrorObject (ascii ''TypeError'') (invalid_statusText pf)))"

text \<open>
  The \<open>catch\<close> block, which is the same in the three handlers. It is not inside a
  \<open>try\<close>: what \<open>new Response\<close> throws, the handler throws.
\<close>

definition catch_block :: "platform \<Rightarrow> thrown \<Rightarrow> thrown + response" where
  "catch_block pf e =
     (case e of
        ErrorObject nm msg \<Rightarrow> new_Response pf msg 500 (Error_toString nm msg)
      | OtherValue \<Rightarrow>
          new_Response pf (ascii ''An unknown error occurred.'') 500 (ascii ''Unknown Error''))"



text \<open>\<open>history.slice(history.length - 30, history.length)\<close>.\<close>

definition topHistory_of :: "ChatMessage list \<Rightarrow> ChatMessage list" where
  "topHistory_of hist = drop (length hist - 30) hist"

subsection \<open>The simple variant\<close>

definition ChatAPISimple :: "env \<Rightarrow> PromptGPTProps \<Rightarrow> world \<Rightarrow> (thrown + response) \<times> world" where
  "ChatAPISimple ev props w =
     (case initAndGuardChatSession ev props of Inl e \<Rightarrow> (Inl e, w) | Inr sess \<Rightarrow>
      let chatAPIModel0 = ([] :: jsstring);
          chatAPIModel1 =
            (if chatAPIModel props = ascii ''GPT-3'' then ascii ''gpt-35-turbo-16k''
             else ascii ''gpt-4o'');
          chatAPIModel2 = ascii ''gpt-4o-mini''
      in
      case OpenAIInstance ev of Some e \<Rightarrow> (Inl e, w) | None \<Rightarrow>
      case userHashedId ev of Inl e \<Rightarrow> (Inl e, w) | Inr userId \<Rightarrow>
      case addMessage ev \<lparr>role = user, content = lastHumanMessage sess\<rparr> None w of
        (Some e, w1) \<Rightarrow> (Inl e, w1)
      | (None, w1) \<Rightarrow>
      case getMessages ev w1 of Inl e \<Rightarrow> (Inl e, w1) | Inr hist \<Rightarrow>
      let topHistory = topHistory_of hist in
      case completions_create ev
             \<lparr>messages = System_simple # map History topHistory,
              model = chatAPIModel2,
              max_tokens = None\<rparr> w1 of
        (Inl e, w2) \<Rightarrow> (catch_block (platform_fns ev) e, w2)
      | (Inr chunks, w2) \<Rightarrow>
          (Inr (StreamingTextResponse chunks
                  (addMessage ev \<lparr>role = assistant, content = concat chunks\<rparr> None)),
           w2))"

subsection \<open>The document variant\<close>

text \<open>\<open>result.pageContent.replace(/(\r\n|\n|\r)/gm, "")\<close> removes every CR and LF.\<close>

definition remove_newlines :: "jsstring \<Rightarrow> jsstring" where
  "remove_newlines s = filter (\<lambda>c. c \<noteq> 0x0D \<and> c \<noteq> 0x0A) s"

definition context_entry :: "RelevantDocument \<Rightarrow> jsstring option" where
  "context_entry result =
     (let text = remove_newlines (pageContent result) in
      case (source result, deptName result) of
        (Some src, Some dept) \<Rightarrow>
          if src = [] \<or> dept = [] then None
          else Some (src @ [0x0A] @ ascii ''file name: '' @ dept @ [0x0A] @
                     ascii ''file id: '' @ doc_id result @ [0x0A] @ text)
      | _ \<Rightarrow> None)"

text \<open>\<open>.filter(Boolean).join("\n------\n")\<close>.\<close>

definition context_of :: "RelevantDocument list \<Rightarrow> jsstring" where
  "context_of relevantDocuments =
     join (filter (\<lambda>s. s \<noteq> [])
             (concat (map (\<lambda>result. case context_entry result of None \<Rightarrow> [] | Some s \<Rightarrow> [s])
                        relevantDocuments)))
       ([0x0A] @ ascii ''------'' @ [0x0A])"

definition findRelevantDocuments :: "env \<Rightarrow> jsstring \<Rightarrow> jsstring \<Rightarrow> thrown + RelevantDocument list" where
  "findRelevantDocuments ev query dept =
     (let filter_expr =
            (if dept = ascii ''all'' then ascii ''chatType eq '' @ [0x27] @ ascii ''doc'' @ [0x27]
             else ascii ''chatType eq '' @ [0x27] @ ascii ''doc'' @ [0x27] @
                  ascii '' and deptName eq '' @ [0x27] @ dept @ [0x27])
      in similaritySearchVectorWithScore ev query 15 filter_expr)"

text \<open>The two \<open>addMessage\<close> of \<open>onCompletion\<close>; the second runs when the first has returned.\<close>

definition onCompletion_doc :: "env \<Rightarrow> jsstring \<Rightarrow> jsstring \<Rightarrow> jsstring \<Rightarrow> world \<Rightarrow> thrown option \<times> world" where
  "onCompletion_doc ev question context completion w =
     (case addMessage ev \<lparr>role = user, content = question\<rparr> None w of
        (Some e, w1) \<Rightarrow> (Some e, w1)
      | (None, w1) \<Rightarrow> addMessage ev \<lparr>role = assistant, content = completion\<rparr> (Some context) w1)"

definition ChatAPIDoc :: "env \<Rightarrow> PromptGPTProps \<Rightarrow> world \<Rightarrow> (thrown + response) \<times> world" where
  "ChatAPIDoc ev props w =
     (case initAndGuardChatSession ev props of Inl e \<Rightarrow> (Inl e, w) | Inr sess \<Rightarrow>
      case OpenAIInstance ev of Some e \<Rightarrow> (Inl e, w) | None \<Rightarrow>
      case userHashedId ev of Inl e \<Rightarrow> (Inl e, w) | Inr userId \<Rightarrow>
      let chatAPIModel0 = ([] :: jsstring);
          chatAPIModel1 =
            (if chatAPIModel props = ascii ''GPT-3'' then ascii ''gpt-35-turbo-16k''
             else ascii ''gpt-4o'');
          chatAPIModel2 = ascii ''gpt-4o-mini''
      in
      case getMessages ev w of Inl e \<Rightarrow> (Inl e, w) | Inr hist \<Rightarrow>
      let topHistory = topHistory_of hist in
      case findRelevantDocuments ev (lastHumanMessage sess) (chatDoc props) of
        Inl e \<Rightarrow> (Inl e, w)
      | Inr relevantDocuments \<Rightarrow>
      let context = context_of relevantDocuments;
          citationData = citationData_of relevantDocuments
      in
      case completions_create ev
             \<lparr>messages =
                [System_doc] @ map History topHistory @
                [Context_prompt context (lastHumanMessage sess), Citation_hint citationData],
              model = chatAPIModel2,
              max_tokens = Some 4000\<rparr> w of
        (Inl e, w1) \<Rightarrow> (catch_block (platform_fns ev) e, w1)
      | (Inr chunks, w1) \<Rightarrow>
          (Inr (StreamingTextResponse (customTransformer citationData chunks)
                  (onCompletion_doc ev (lastHumanMessage sess) context (concat chunks))),
           w1))"

subsection \<open>The web variant\<close>

definition handleChatCompletion ::
  "env \<Rightarrow> jsstring \<Rightarrow> ChatMessage list \<Rightarrow> jsstring \<Rightarrow> WebPageContent list \<Rightarrow> jsstring \<Rightarrow>
   world \<Rightarrow> (thrown + response) \<times> world" where
  "handleChatCompletion ev question topHistory model_name webPageContents timeStr w =
     (case addMessage ev \<lparr>role = user, content = question\<rparr> None w of
        (Some e, w1) \<Rightarrow> (Inl e, w1)
      | (None, w1) \<Rightarrow>
      case completions_create ev
             \<lparr>messages =
                [System_web] @ map History topHistory @
                [Web_prompt timeStr topHistory question webPageContents],
              model = model_name,
              max_tokens = Some 2000\<rparr> w1 of
        (Inl e, w2) \<Rightarrow> (Inl e, w2)
      | (Inr chunks, w2) \<Rightarrow>
          (Inr (StreamingTextResponse chunks
                  (addMessage ev \<lparr>role = assistant, content = concat chunks\<rparr> None)),
           w2))"

text \<open>The body of the \<open>try\<close> of \<open>ChatAPIWeb\<close>.\<close>

definition ChatAPIWeb_try :: "env \<Rightarrow> PromptGPTProps \<Rightarrow> world \<Rightarrow> (thrown + response) \<times> world" where
  "ChatAPIWeb_try ev props w =
     (case initAndGuardChatSession ev props of Inl e \<Rightarrow> (Inl e, w) | Inr sess \<Rightarrow>
      case OpenAIInstance ev of Some e \<Rightarrow> (Inl e, w) | None \<Rightarrow>
      case userHashedId ev of Inl e \<Rightarrow> (Inl e, w) | Inr userId \<Rightarrow>
      let chatAPIModel0 =
            (if chatAPIModel props = ascii ''GPT-3'' then ascii ''gpt-35-turbo-16k''
             else ascii ''gpt-4o-mini'')
      in
      case getMessages ev w of Inl e \<Rightarrow> (Inl e, w) | Inr hist \<Rightarrow>
      let topHistory = topHistory_of hist;
          jpDateTime = getJapanDateTime ev;
          timeStr = currentTimeStr ev;
          optimizedQuery = optimizeSearchQuery (lastHumanMessage sess) jpDateTime
      in
      case SearchWeb ev optimizedQuery (freshness_of (lastHumanMessage sess)) 5 of
        Inl e \<Rightarrow> (Inl e, w)
      | Inr None \<Rightarrow>
          handleChatCompletion ev (lastHumanMessage sess) topHistory chatAPIModel0 [] timeStr w
      | Inr (Some pages) \<Rightarrow>
          let webPageContents = webPageContents_of (platform_fns ev) (browser_sessions ev) pages in
          handleChatCompletion ev (lastHumanMessage sess) topHistory chatAPIModel0
            webPageContents timeStr w)"

definition ChatAPIWeb :: "env \<Rightarrow> PromptGPTProps \<Rightarrow> world \<Rightarrow> (thrown + response) \<times> world" where
  "ChatAPIWeb ev props w =
     (case ChatAPIWeb_try ev props w of
        (Inl e, w1) \<Rightarrow> (catch_block (platform_fns ev) e, w1)
      | (Inr r, w1) \<Rightarrow> (Inr r, w1))"

section \<open>Sample collaborators\<close>

text \<open>
  Concrete collaborators on which the handlers are run below: a browser session in
  which every call succeeds, one whose navigation times out, and an environment in
  which every call succeeds.
\<close>

definition session_ok :: browser_session where
  "session_ok =
     \<lparr>launch_r = None, newPage_r = None, goto_r = None,
      pageText_r = Inr (ascii ''Page text''), publishDate_r = Inr None,
      close_r = None, close_catch_r = None\<rparr>"

definition session_timeout :: browser_session where
  "session_timeout =
     session_ok\<lparr>goto_r := Some (ErrorObject (ascii ''TimeoutError'') (ascii ''Navigation timeout''))\<rparr>"

definition platform_ok :: platform where
  "platform_ok =
     \<lparr>URL_toString = (\<lambda>u. Inr u), toLocaleString_ja = (\<lambda>d. d),
      invalid_statusText = ascii ''Invalid statusText''\<rparr>"

definition env_ok :: env where
  "env_ok =
     \<lparr>initAndGuardChatSession =
        (\<lambda>props. Inr \<lparr>lastHumanMessage = ascii ''hello'', chatThread_id = ascii ''t1''\<rparr>),
      OpenAIInstance = None,
      userHashedId = Inr (ascii ''u1''),
      getMessages_r = None,
      addMessage_r = (\<lambda>h m. None),
      similaritySearchVectorWithScore = (\<lambda>query k filter_expr. Inr []),
      create = (\<lambda>req. Inr [ascii ''Hi'', ascii '' there'']),
      SearchWeb = (\<lambda>query fr k. Inr None),
      browser_sessions = (\<lambda>i. session_ok),
      platform_fns = platform_ok,
      getJapanDateTime = \<lparr>time_value = 1793618580000, tz_offset = 0\<rparr>,
      currentTimeStr = ascii ''2026/11/2 20:23:00''\<rparr>"

definition props_gpt3 :: PromptGPTProps where
  "props_gpt3 = \<lparr>chatAPIModel = ascii ''GPT-3'', chatDoc = ascii ''all''\<rparr>"

definition world_empty :: world where
  "world_empty = \<lparr>history = [], create_calls = []\<rparr>"



definition env_no_completion :: env where
  "env_no_completion =
     env_ok\<lparr>create := (\<lambda>req. Inl (ErrorObject (ascii ''APIError'') (ascii ''rate limit'')))\<rparr>"





definition env_japanese_error :: env where
  "env_japanese_error =
     env_ok\<lparr>create := (\<lambda>req. Inl (ErrorObject (ascii ''Error'') saishin))\<rparr>"



section \<open>Strings and regular expressions: basic facts\<close>

lemma startsWith_append: "startsWith s t \<Longrightarrow> startsWith (s @ u) t"
  by (induction s t rule: startsWith.induct) auto

lemma includes_str_append: "includes_str s t \<Longrightarrow> includes_str (s @ u) t"
proof (induction s)
  case Nil
  then show ?case by (cases u) auto
next
  case (Cons x xs)
  then show ?case by (auto dest: startsWith_append [where u = u])
qed

lemma match_end_nullable: "nullable r \<Longrightarrow> match_end r s = Some 0"
  by (cases s) auto

lemma match_end_append: "match_end r s \<noteq> None \<Longrightarrow> match_end r (s @ t) \<noteq> None"
proof (induction s arbitrary: r)
  case Nil
  then show ?case by (simp add: match_end_nullable split: if_splits)
next
  case (Cons c cs)
  then show ?case by (auto split: if_splits)
qed

lemma test_nullable: "nullable r \<Longrightarrow> test r s"
  by (cases s) auto

lemma test_append: "test r s \<Longrightarrow> test r (s @ t)"
proof (induction s)
  case Nil
  then show ?case by (simp add: test_nullable)
next
  case (Cons c cs)
  then show ?case
    using match_end_append [of r "c # cs" t] by auto
qed

lemma match_end_Alt:
  "(match_end (Alt r s) m \<noteq> None) = (match_end r m \<noteq> None \<or> match_end s m \<noteq> None)"
  by (induction m arbitrary: r s) auto

lemma test_Alt: "test (Alt r s) m = (test r m \<or> test s m)"
proof (induction m)
  case Nil
  then show ?case by simp
next
  case (Cons c cs)
  have "test (Alt r s) (c # cs) = (match_end (Alt r s) (c # cs) \<noteq> None \<or> test (Alt r s) cs)"
    by (simp only: test.simps)
  also have "\<dots> = ((match_end r (c # cs) \<noteq> None \<or> match_end s (c # cs) \<noteq> None) \<or> (test r cs \<or> test s cs))"
    by (simp only: match_end_Alt Cons.IH)
  also have "\<dots> = (test r (c # cs) \<or> test s (c # cs))"
    by (simp only: test.simps) blast
  finally show ?case .
qed

lemma match_end_Empty: "match_end Empty m = None"
  by (induction m) auto

lemma match_end_Seq_Empty: "match_end (Seq Empty r) m = None"
  by (induction m) auto

lemma match_end_Seq_Eps: "(match_end (Seq Eps r) m \<noteq> None) = (match_end r m \<noteq> None)"
proof (cases m)
  case Nil
  then show ?thesis by simp
next
  case (Cons c cs)
  have "(match_end (Alt (Seq Empty r) (deriv c r)) cs \<noteq> None) = (match_end (deriv c r) cs \<noteq> None)"
    by (simp only: match_end_Alt match_end_Seq_Empty) simp
  then show ?thesis
    using Cons by auto
qed

lemma match_end_Seq_Lit:
  "(match_end (Seq (Lit d) r) (c # cs) \<noteq> None) = (c = d \<and> match_end r cs \<noteq> None)"
  using match_end_Seq_Eps [of r cs] match_end_Seq_Empty [of r cs] by auto

text \<open>A literal pattern matches at the start of a string exactly when the string starts with it.\<close>

lemma match_end_Str: "(match_end (Str s) m \<noteq> None) = startsWith m s"
proof (induction s arbitrary: m rule: Str.induct)
  case 1
  then show ?case by (cases m) auto
next
  case (2 c)
  then show ?case by (cases m) (auto simp: match_end_Empty match_end_nullable split: if_splits)
next
  case (3 c d cs)
  show ?case
  proof (cases m)
    case Nil
    then show ?thesis by simp
  next
    case (Cons x xs)
    have "(match_end (Str (c # d # cs)) (x # xs) \<noteq> None) = (x = c \<and> match_end (Str (d # cs)) xs \<noteq> None)"
      using match_end_Seq_Lit [of c "Str (d # cs)" x xs] by simp
    then show ?thesis
      using Cons 3 [of xs] by auto
  qed
qed

lemma nullable_Str: "nullable (Str s) = (s = [])"
  by (induction s rule: Str.induct) auto

text \<open>\<open>test\<close> on a literal pattern is \<open>includes\<close>.\<close>

lemma test_Str: "test (Str s) m = includes_str m s"
proof (induction m)
  case Nil
  then show ?case by (simp add: nullable_Str)
next
  case (Cons c cs)
  have "test (Str s) (c # cs) = (match_end (Str s) (c # cs) \<noteq> None \<or> test (Str s) cs)"
    by (simp only: test.simps)
  then show ?case
    by (simp only: match_end_Str Cons.IH includes_str.simps)
qed

text \<open>The matcher is correct for the strings of a pattern.\<close>

lemma nullable_lang: "nullable r = ([] \<in> lang r)"
  by (induction r) (auto intro: star.intros)

lemma star_Cons:
  "(c # w \<in> star A) = (\<exists>u v. w = u @ v \<and> c # u \<in> A \<and> v \<in> star A)"
proof
  assume "c # w \<in> star A"
  then show "\<exists>u v. w = u @ v \<and> c # u \<in> A \<and> v \<in> star A"
  proof (induction "c # w" arbitrary: w rule: star.induct)
    case (star_step u v)
    show ?case
    proof (cases u)
      case Nil
      then show ?thesis using star_step by auto
    next
      case (Cons a us)
      then show ?thesis using star_step by auto
    qed
  qed
next
  assume "\<exists>u v. w = u @ v \<and> c # u \<in> A \<and> v \<in> star A"
  then obtain u v where "w = u @ v" "c # u \<in> A" "v \<in> star A" by blast
  then show "c # w \<in> star A"
    using star.star_step [of "c # u" A v] by simp
qed

lemma deriv_lang: "(w \<in> lang (deriv c r)) = (c # w \<in> lang r)"
proof (induction r arbitrary: w)
  case (Seq r s)
  show ?case
  proof (cases "nullable r")
    case True
    then show ?thesis
      using Seq by (auto simp: nullable_lang Cons_eq_append_conv)
  next
    case False
    then show ?thesis
      using Seq by (auto simp: nullable_lang Cons_eq_append_conv)
  qed
next
  case (Star r)
  then show ?case by (auto simp: star_Cons)
qed auto

lemma match_end_lang:
  "(match_end r s \<noteq> None) = (\<exists>p q. s = p @ q \<and> p \<in> lang r)"
proof (induction s arbitrary: r)
  case Nil
  then show ?case by (simp add: nullable_lang)
next
  case (Cons c cs)
  show ?case
  proof (cases "nullable r")
    case True
    then show ?thesis by (auto simp: nullable_lang)
  next
    case False
    have "(match_end r (c # cs) \<noteq> None) = (\<exists>p q. cs = p @ q \<and> c # p \<in> lang r)"
      using False Cons [of "deriv c r"] by (simp add: deriv_lang)
    also have "\<dots> = (\<exists>p q. c # cs = p @ q \<and> p \<in> lang r)"
      using False by (auto simp: nullable_lang Cons_eq_append_conv)
    finally show ?thesis .
  qed
qed

lemma match_end_sound: "match_end r s = Some n \<Longrightarrow> n \<le> length s \<and> take n s \<in> lang r"
proof (induction s arbitrary: r n)
  case Nil
  then show ?case by (auto simp: nullable_lang split: if_splits)
next
  case (Cons c cs)
  show ?case
  proof (cases "nullable r")
    case True
    then show ?thesis using Cons.prems by (auto simp: nullable_lang)
  next
    case False
    then obtain k where k: "match_end (deriv c r) cs = Some k" "n = Suc k"
      using Cons.prems by auto
    then show ?thesis
      using Cons.IH [OF k(1)] by (simp add: deriv_lang)
  qed
qed

lemma test_lang: "test r s = (\<exists>a p b. s = a @ p @ b \<and> p \<in> lang r)"
proof (induction s)
  case Nil
  then show ?case by (simp add: nullable_lang)
next
  case (Cons c cs)
  have "test r (c # cs) = ((\<exists>p q. c # cs = p @ q \<and> p \<in> lang r) \<or> (\<exists>a p b. cs = a @ p @ b \<and> p \<in> lang r))"
    by (simp only: test.simps match_end_lang Cons.IH)
  also have "\<dots> = (\<exists>a p b. c # cs = a @ p @ b \<and> p \<in> lang r)"
  proof
    assume "(\<exists>p q. c # cs = p @ q \<and> p \<in> lang r) \<or> (\<exists>a p b. cs = a @ p @ b \<and> p \<in> lang r)"
    then show "\<exists>a p b. c # cs = a @ p @ b \<and> p \<in> lang r"
    proof
      assume "\<exists>p q. c # cs = p @ q \<and> p \<in> lang r"
      then obtain p q where "c # cs = [] @ p @ q" "p \<in> lang r" by auto
      then show ?thesis by blast
    next
      assume "\<exists>a p b. cs = a @ p @ b \<and> p \<in> lang r"
      then obtain a p b where "c # cs = (c # a) @ p @ b" "p \<in> lang r" by auto
      then show ?thesis by blast
    qed
  next
    assume "\<exists>a p b. c # cs = a @ p @ b \<and> p \<in> lang r"
    then obtain a p b where apb: "c # cs = a @ p @ b" "p \<in> lang r" by blast
    show "(\<exists>p q. c # cs = p @ q \<and> p \<in> lang r) \<or> (\<exists>a p b. cs = a @ p @ b \<and> p \<in> lang r)"
    proof (cases a)
      case Nil
      then show ?thesis using apb by auto
    next
      case (Cons x xs)
      then have "cs = xs @ p @ b" using apb by simp
      then show ?thesis using apb(2) by blast
    qed
  qed
  finally show ?case .
qed


lemma lang_Str: "lang (Str s) = {s}"
  by (induction s rule: Str.induct) auto

lemma star_Space: "(ws \<in> star (lang Space)) = (\<forall>c \<in> set ws. is_space c)"
proof
  assume "ws \<in> star (lang Space)"
  then show "\<forall>c \<in> set ws. is_space c"
    by (induction rule: star.induct) auto
next
  assume "\<forall>c \<in> set ws. is_space c"
  then show "ws \<in> star (lang Space)"
  proof (induction ws)
    case Nil
    then show ?case by (simp add: star.star_empty)
  next
    case (Cons c cs)
    then have "[c] \<in> lang Space" "cs \<in> star (lang Space)" by auto
    then have "[c] @ cs \<in> star (lang Space)" by (rule star.star_step)
    then show ?case by simp
  qed
qed

lemma lang_Star_Space: "lang (Star Space) = {ws. \<forall>c \<in> set ws. is_space c}"
  using star_Space by (auto simp only: lang.simps(8))

lemma lang_citation_open_rx:
  "lang citation_open_rx =
     {ascii ''{%'' @ ws @ ascii ''citation'' |ws. \<forall>c \<in> set ws. is_space c}"
  by (simp only: citation_open_rx_def lang.simps(6) lang_Str lang_Star_Space) auto

lemma takeWhile_spaces:
  assumes "\<forall>c \<in> set ws. is_space c"
  shows "takeWhile is_space (ws @ ascii ''citation'' @ t) = ws"
proof -
  have "\<not> is_space (0x63 :: jschar)"
    by (simp add: is_space_def)
  then show ?thesis
    using assms by (simp add: takeWhile_append2 ascii_def)
qed

text \<open>At any position the opening pattern has at most one match.\<close>

lemma citation_open_rx_unique:
  assumes "p \<in> lang citation_open_rx" and "p' \<in> lang citation_open_rx"
    and "p @ q = p' @ q'"
  shows "p = p'"
proof -
  obtain ws where p: "p = ascii ''{%'' @ ws @ ascii ''citation''" and ws: "\<forall>c \<in> set ws. is_space c"
    using assms(1) by (auto simp: lang_citation_open_rx)
  obtain ws' where p': "p' = ascii ''{%'' @ ws' @ ascii ''citation''" and ws': "\<forall>c \<in> set ws'. is_space c"
    using assms(2) by (auto simp: lang_citation_open_rx)
  have "ws @ ascii ''citation'' @ q = ws' @ ascii ''citation'' @ q'"
    using assms(3) by (simp add: p p')
  then have "takeWhile is_space (ws @ ascii ''citation'' @ q) =
             takeWhile is_space (ws' @ ascii ''citation'' @ q')"
    by simp
  then have "ws = ws'"
    by (simp only: takeWhile_spaces [OF ws] takeWhile_spaces [OF ws'])
  then show ?thesis
    by (simp add: p p')
qed

lemma match_end_citation_open_rx:
  assumes "match_end citation_open_rx s = Some n" and "p \<in> lang citation_open_rx" and "s = p @ q"
  shows "p = take n s"
proof -
  have 1: "take n s \<in> lang citation_open_rx"
    using match_end_sound [OF assms(1)] by (rule conjunct2)
  have 2: "take n s @ drop n s = p @ q"
  proof -
    have "take n s @ drop n s = s" by (rule append_take_drop_id)
    also have "s = p @ q" by (rule assms(3))
    finally show ?thesis .
  qed
  have "take n s = p"
    using 1 assms(2) 2 by (rule citation_open_rx_unique)
  then show ?thesis by (rule sym)
qed

lemma Rep4: "Rep 4 r = Seq r (Seq r (Seq r (Seq r Eps)))"
  by (simp add: numeral_eq_Suc)

lemmas pattern_defs = DATE_PATTERNS_def IMMEDIACY_PATTERN_def ima_def
  kyou_def honjitsu_def genzai_def saishin_def kinou_def ototoi_def konshuu_def kongetsu_def
  kotoshi_def saikin_def chokkin_def nen_def gatsu_def nichi_def Opt_def is_digit_def Rep4

section \<open>The stream rewriter\<close>

lemma transform_plain:
  "\<not> includes_str (b @ x) (ascii ''{% citation'') \<Longrightarrow> transform cd b x = ([x], [])"
  by (simp add: transform_def)

lemma transform_stall:
  "includes_str (b @ x) (ascii ''{% citation'') \<Longrightarrow> \<not> includes_str (b @ x) (ascii ''/%}'')
   \<Longrightarrow> transform cd b x = ([], b @ x)"
  by (simp add: transform_def)

lemma run_transform_plain:
  "\<forall>x \<in> set cs. \<not> includes_str x (ascii ''{% citation'') \<Longrightarrow> run_transform cd [] cs = (cs, [])"
  by (induction cs) (simp_all add: transform_plain)

lemma run_transform_stall:
  "includes_str b (ascii ''{% citation'') \<Longrightarrow> \<not> includes_str (b @ concat ds) (ascii ''/%}'')
   \<Longrightarrow> run_transform cd b ds = ([], b @ concat ds)"
proof (induction ds arbitrary: b)
  case Nil
  then show ?case by simp
next
  case (Cons d ds)
  have op: "includes_str (b @ d) (ascii ''{% citation'')"
    using Cons.prems(1) by (rule includes_str_append)
  have cl: "\<not> includes_str (b @ d) (ascii ''/%}'')"
    using Cons.prems(2) includes_str_append [of "b @ d" "ascii ''/%}''" "concat ds"] by auto
  have "run_transform cd (b @ d) ds = ([], (b @ d) @ concat ds)"
    using Cons.IH [OF op] Cons.prems(2) by simp
  then show ?case
    by (simp add: transform_stall [OF op cl])
qed

lemma run_transform_append:
  "run_transform cd b (xs @ ys) =
     (let (o1, b1) = run_transform cd b xs; (o2, b2) = run_transform cd b1 ys in (o1 @ o2, b2))"
  by (induction xs arbitrary: b) (simp_all add: split_beta Let_def)

text \<open>
  The buffer is only ever left non-empty with a complete opening token in it, so that
  nothing is withheld unless such a token has been seen.
\<close>

lemma transform_buffer:
  "snd (transform cd b x) = [] \<or> includes_str (snd (transform cd b x)) (ascii ''{% citation'')"
  by (simp add: transform_def Let_def)

text \<open>
  C1, as amended. At a point of the stream where nothing is withheld and no chunk so
  far ends within an opening token: a chunk that has no complete opening token
  \<open>{% citation\<close> and does not end within one is forwarded at once, as it is. And
  at a point where nothing is withheld, from a chunk with a complete opening token on,
  nothing is forwarded, neither the text before the token nor what follows it, as long
  as the withheld text has no closing token \<open>/%}\<close>.
\<close>

theorem stream_rewriter_buffering:
  assumes "run_transform cd [] cs = (out, [])"
  shows "((\<forall>x \<in> set (cs @ [c]). \<not> ends_with_partial_open x) \<and>
          \<not> includes_str c (ascii ''{% citation'') \<longrightarrow>
            run_transform cd [] (cs @ [c]) = (out @ [c], [])) \<and>
         (includes_str c' (ascii ''{% citation'') \<and>
          \<not> includes_str (c' @ concat ds) (ascii ''/%}'') \<longrightarrow>
            run_transform cd [] (cs @ c' # ds) = (out, c' @ concat ds))"
proof (intro conjI impI)
  assume "(\<forall>x \<in> set (cs @ [c]). \<not> ends_with_partial_open x) \<and>
    \<not> includes_str c (ascii ''{% citation'')"
  then have "transform cd [] c = ([c], [])"
    using transform_plain [of "[]" c cd] by simp
  then show "run_transform cd [] (cs @ [c]) = (out @ [c], [])"
    by (simp add: run_transform_append assms)
next
  assume h: "includes_str c' (ascii ''{% citation'') \<and>
    \<not> includes_str (c' @ concat ds) (ascii ''/%}'')"
  have cl: "\<not> includes_str c' (ascii ''/%}'')"
    using h includes_str_append [of c' "ascii ''/%}''" "concat ds"] by auto
  have 2: "transform cd [] c' = ([], c')"
    using transform_stall [of "[]" c' cd] h cl by simp
  have 3: "run_transform cd c' ds = ([], c' @ concat ds)"
    using h by (simp add: run_transform_stall)
  show "run_transform cd [] (cs @ c' # ds) = (out, c' @ concat ds)"
    by (simp add: run_transform_append assms 2 3)
qed

text \<open>
  An instance: after the chunk \<open>Intro. \<close>, the chunk \<open>More text.\<close> is forwarded,
  and the chunks \<open>Answer {% citation it\<close>, \<open>ems=[\<close>, \<open>] /%\<close> are withheld.
\<close>

theorem stream_rewriter_buffering_witness:
  "run_transform [] [] [ascii ''Intro. ''] = ([ascii ''Intro. ''], []) \<and>
   run_transform [] [] ([ascii ''Intro. ''] @ [ascii ''More text.'']) =
     ([ascii ''Intro. ''] @ [ascii ''More text.''], []) \<and>
   run_transform [] [] ([ascii ''Intro. ''] @ ascii ''Answer {% citation it'' # [ascii ''ems=['', ascii ''] /%'']) =
     ([ascii ''Intro. ''], ascii ''Answer {% citation it'' @ concat [ascii ''ems=['', ascii ''] /%''])"
proof -
  have a: "run_transform [] [] [ascii ''Intro. ''] = ([ascii ''Intro. ''], [])"
    by (simp add: transform_def ascii_def)
  have p: "\<forall>x \<in> set ([ascii ''Intro. ''] @ [ascii ''More text.'']). \<not> ends_with_partial_open x"
    by (simp add: ends_with_partial_open_def endsWith_def ascii_def upt_rec)
  have b: "\<not> includes_str (ascii ''More text.'') (ascii ''{% citation'')"
    by (simp add: ascii_def)
  have c: "includes_str (ascii ''Answer {% citation it'') (ascii ''{% citation'') \<and>
           \<not> includes_str (ascii ''Answer {% citation it'' @ concat [ascii ''ems=['', ascii ''] /%'']) (ascii ''/%}'')"
    by (simp add: ascii_def)
  show ?thesis
    using stream_rewriter_buffering [OF a, of "ascii ''More text.''" "ascii ''Answer {% citation it''" "[ascii ''ems=['', ascii ''] /%'']"] a p b c
    by blast
qed

text \<open>
  The claim as it was stated fails twice. The text \<open>Answer text \<close> lies outside the
  marker, and is not forwarded when its chunk is processed. And when the opening token
  is split between the chunks \<open>ab{% cit\<close> and \<open>ation items=[] \<close>, both chunks are
  forwarded although no closing token has arrived.
\<close>

theorem stream_rewriter_buffering_counterexample:
  "transform [] [] (ascii ''Answer text {% citation items=['') =
     ([], ascii ''Answer text {% citation items=['') \<and>
   run_transform [] [] [ascii ''ab{% cit'', ascii ''ation items=[] ''] =
     ([ascii ''ab{% cit'', ascii ''ation items=[] ''], []) \<and>
   includes_str (concat [ascii ''ab{% cit'', ascii ''ation items=[] '']) (ascii ''{% citation'') \<and>
   \<not> includes_str (concat [ascii ''ab{% cit'', ascii ''ation items=[] '']) (ascii ''/%}'')"
  by (simp add: transform_def ascii_def)

lemma join_Cons_ex: "\<exists>t. join (x # xs) sep = x @ t"
  by (cases xs) auto

lemma validCitationData_of_nonempty: "validCitationData_of cd \<noteq> []"
  by (simp add: validCitationData_of_def Let_def)

lemma JSON_stringify_head:
  assumes "items \<noteq> []"
  shows "\<exists>t. JSON_stringify items = 0x5B # 0x7B # 0x22 # t"
proof -
  obtain x xs where items: "items = x # xs"
    using assms by (cases items) auto
  obtain t where t: "join (map stringify_item (x # xs)) (ascii '','') = stringify_item x @ t"
    using join_Cons_ex [of "stringify_item x" "map stringify_item xs"] by auto
  have "\<exists>u. stringify_item x = 0x7B # 0x22 # u"
    by (simp add: stringify_item_def ascii_def)
  then obtain u where u: "stringify_item x = 0x7B # 0x22 # u" ..
  show ?thesis
    using t u by (simp add: JSON_stringify_def items ascii_def)
qed

text \<open>The new marker is never the marker of the model: its items start with \<open>[{"\<close>.\<close>

lemma newCitation_of_fresh:
  \<open>newCitation_of cd \<noteq> ascii ''{% citation items=[{name:"a",id:"1"}] /%}''\<close>
proof -
  obtain t where t: "JSON_stringify (validCitationData_of cd) = 0x5B # 0x7B # 0x22 # t"
    using JSON_stringify_head [OF validCitationData_of_nonempty] by blast
  show ?thesis
    by (simp add: newCitation_of_def t ascii_def)
qed

lemma two_chunks_first:
  "transform cd [] (ascii ''Answer text {% citation items=['') =
     ([], ascii ''Answer text {% citation items=['')"
  by (simp add: transform_def ascii_def)

lemma two_chunks_second:
  \<open>transform cd (ascii ''Answer text {% citation items=['') (ascii ''{name:"a",id:"1"}] /%} done'') =
     ([ascii ''Answer text '', newCitation_of cd, ascii '' done''], [])\<close>
  by (simp add: transform_def ascii_def split_def citation_open_rx_def is_space_def slice_def)

text \<open>
  C2. For every citation candidate list: after the first of the two chunks nothing has
  been forwarded; after the second, exactly \<open>Answer text \<close>, the new marker and
  \<open> done\<close> have been, and nothing is left for the end of the stream. The new marker
  is serialized from the candidate list, and differs from the marker of the model.
\<close>

theorem stream_rewriter_two_chunks:
  \<open>run_transform cd [] [ascii ''Answer text {% citation items=[''] =
     ([], ascii ''Answer text {% citation items=['') \<and>
   run_transform cd [] [ascii ''Answer text {% citation items=['', ascii ''{name:"a",id:"1"}] /%} done''] =
     ([ascii ''Answer text '', newCitation_of cd, ascii '' done''], []) \<and>
   customTransformer cd [ascii ''Answer text {% citation items=['', ascii ''{name:"a",id:"1"}] /%} done''] =
     [ascii ''Answer text '', newCitation_of cd, ascii '' done''] \<and>
   newCitation_of cd =
     ascii ''{% citation items='' @ JSON_stringify (validCitationData_of cd) @ ascii '' /%}'' \<and>
   newCitation_of cd \<noteq> ascii ''{% citation items=[{name:"a",id:"1"}] /%}''\<close>
  by (simp add: customTransformer_def flush_def two_chunks_first two_chunks_second newCitation_of_fresh)
    (simp add: newCitation_of_def)

text \<open>
  C3 does not hold of the code. When the buffer holds two markers, only the text up to
  the second opening token is looked at: of the chunk
  \<open>A {% citation items=[] /%} B {% citation items=[] /%} C\<close> the rewriter forwards
  \<open>A \<close>, the new marker and \<open> B \<close>, and neither the second marker nor the text
  \<open> C\<close> after it, also not at the end of the stream.
\<close>

theorem stream_rewriter_second_marker_dropped:
  "customTransformer cd [ascii ''A {% citation items=[] /%} B {% citation items=[] /%} C''] =
     [ascii ''A '', newCitation_of cd, ascii '' B '']"
  by (simp add: customTransformer_def flush_def transform_def ascii_def split_def citation_open_rx_def
      is_space_def slice_def)

section \<open>The citation candidates\<close>

lemma or_else_truthy: "truthy v \<Longrightarrow> Some (or_else v d) = v"
  by (cases v) (auto simp: truthy_def or_else_def)

lemma valid_items_names:
  "map (\<lambda>i. (Some (item_name i), item_id i))
     (map (\<lambda>item. \<lparr>item_name = or_else (cd_name item) d, item_id = cd_id item\<rparr>) (citationData_of docs)) =
   map (\<lambda>d. (deptName d, doc_id d)) (filter (\<lambda>d. truthy (source d) \<and> truthy (deptName d)) docs)"
  by (induction docs) (auto simp: citationData_of_def or_else_truthy)

lemma placeholder_marker:
  \<open>newCitation_of [] = ascii ''{% citation items=[{"name":"Document Not Found","id":"unknown"}] /%}''\<close>
  by (simp add: newCitation_of_def validCitationData_of_def JSON_stringify_def stringify_item_def
      QuoteJSONString_def ascii_def quote_unit_def is_high_surrogate_def is_low_surrogate_def)

text \<open>
  C6. The citation candidates are the retrieved documents that have a source and a
  deptName, in the order of the retrieval, each with its deptName, its id and its
  source. The items of the marker are the candidates' names and ids, and the single
  placeholder when there is no candidate; the marker written for an empty candidate
  list is the one with the placeholder as its only item.
\<close>

theorem citation_candidates:
  \<open>map (\<lambda>c. (cd_name c, cd_id c, cd_source c)) (citationData_of docs) =
     map (\<lambda>d. (deptName d, doc_id d, source d))
       (filter (\<lambda>d. truthy (source d) \<and> truthy (deptName d)) docs) \<and>
   map (\<lambda>i. (Some (item_name i), item_id i)) (validCitationData_of (citationData_of docs)) =
     (if filter (\<lambda>d. truthy (source d) \<and> truthy (deptName d)) docs = []
      then [(Some (ascii ''Document Not Found''), ascii ''unknown'')]
      else map (\<lambda>d. (deptName d, doc_id d))
             (filter (\<lambda>d. truthy (source d) \<and> truthy (deptName d)) docs)) \<and>
   newCitation_of [] =
     ascii ''{% citation items=[{"name":"Document Not Found","id":"unknown"}] /%}''\<close>
proof (intro conjI)
  show "map (\<lambda>c. (cd_name c, cd_id c, cd_source c)) (citationData_of docs) =
     map (\<lambda>d. (deptName d, doc_id d, source d))
       (filter (\<lambda>d. truthy (source d) \<and> truthy (deptName d)) docs)"
    by (simp add: citationData_of_def comp_def)
next
  show "map (\<lambda>i. (Some (item_name i), item_id i)) (validCitationData_of (citationData_of docs)) =
     (if filter (\<lambda>d. truthy (source d) \<and> truthy (deptName d)) docs = []
      then [(Some (ascii ''Document Not Found''), ascii ''unknown'')]
      else map (\<lambda>d. (deptName d, doc_id d))
             (filter (\<lambda>d. truthy (source d) \<and> truthy (deptName d)) docs))"
  proof (cases "filter (\<lambda>d. truthy (source d) \<and> truthy (deptName d)) docs = []")
    case True
    then have "citationData_of docs = []"
      by (simp add: citationData_of_def)
    then show ?thesis
      using True by (simp add: validCitationData_of_def)
  next
    case False
    then have "citationData_of docs \<noteq> []"
      by (simp add: citationData_of_def)
    then show ?thesis
      using False valid_items_names [of "ascii ''Unknown Document''" docs]
      by (simp add: validCitationData_of_def Let_def)
  qed
next
  show \<open>newCitation_of [] =
     ascii ''{% citation items=[{"name":"Document Not Found","id":"unknown"}] /%}''\<close>
    by (rule placeholder_marker)
qed

section \<open>The query enricher\<close>

lemma digits_of_nonempty: "digits_of n \<noteq> []"
  by (subst digits_of.simps) (simp del: digits_of.simps)

lemma digit_not_T: "k < 10 \<Longrightarrow> (word_of_nat (0x30 + k) :: jschar) \<noteq> 0x54"
proof -
  assume "k < 10"
  then have "k \<in> {0, 1, 2, 3, 4, 5, 6, 7, 8, 9}" by auto
  then show ?thesis by auto
qed

lemma digits_of_no_T: "0x54 \<notin> set (digits_of n)"
proof (induction n rule: digits_of.induct)
  case (1 n)
  show ?case
  proof (cases "n < 10")
    case True
    then have "digits_of n = [word_of_nat (0x30 + n)]"
      by (subst digits_of.simps) (simp del: digits_of.simps)
    then show ?thesis
      using digit_not_T [OF True] by (simp del: digits_of.simps)
  next
    case False
    have "n mod 10 < 10" by simp
    then have d: "(word_of_nat (0x30 + n mod 10) :: jschar) \<noteq> 0x54"
      by (rule digit_not_T)
    have eq: "digits_of n = digits_of (n div 10) @ [word_of_nat (0x30 + n mod 10)]"
      using False by (subst digits_of.simps) (simp del: digits_of.simps)
    have "0x54 \<notin> set (digits_of (n div 10))"
      using False by (rule 1)
    then show ?thesis
      unfolding eq using d by (simp del: digits_of.simps)
  qed
qed

lemma pad_no_T: "0x54 \<notin> set (pad w i)"
  using digits_of_no_T [of "nat i"] by (auto simp: pad_def Let_def simp del: digits_of.simps)

lemma iso_date_no_T: "0x54 \<notin> set (iso_date y m d)"
  using pad_no_T by (auto simp: iso_date_def ascii_def)

text \<open>The date of the filter is the date of the time value in UTC.\<close>

lemma split_T_0_toISOString:
  "split_T_0 (toISOString t) =
     (let (y, m, d) = civil_from_days (time_value t div msPerDay) in iso_date y m d)"
proof -
  obtain y m d where c: "civil_from_days (time_value t div msPerDay) = (y, m, d)"
    by (cases "civil_from_days (time_value t div msPerDay)") auto
  have "\<forall>x \<in> set (iso_date y m d). x \<noteq> 0x54"
    using iso_date_no_T [of y m d] by auto
  then have "takeWhile (\<lambda>c. c \<noteq> 0x54) (iso_date y m d @ 0x54 # r) = iso_date y m d" for r
    by (simp add: takeWhile_append2)
  then show ?thesis
    by (simp add: split_T_0_def toISOString_def c Let_def ascii_def)
qed

text \<open>On a host whose local time is UTC, it is the date of the local time.\<close>

lemma split_T_0_toISOString_utc:
  assumes "tz_offset t = 0"
  shows "split_T_0 (toISOString t) = iso_date (getFullYear t) (getMonth t + 1) (getDate t)"
  using assms
  by (simp add: split_T_0_toISOString getFullYear_def getMonth_def getDate_def split_beta Let_def)

text \<open>The time 2026-11-02 11:23:00 UTC, on a host in UTC.\<close>

lemma sample_date_fields:
  "getFullYear \<lparr>time_value = 1793618580000, tz_offset = 0\<rparr> = 2026 \<and>
   getMonth \<lparr>time_value = 1793618580000, tz_offset = 0\<rparr> = 10 \<and>
   getDate \<lparr>time_value = 1793618580000, tz_offset = 0\<rparr> = 2 \<and>
   toISOString \<lparr>time_value = 1793618580000, tz_offset = 0\<rparr> = ascii ''2026-11-02T11:23:00.000Z''"
  by code_simp

text \<open>
  The same function on a host nine hours ahead of UTC, at 03:00 of 2026-11-02 local
  time: the year and month are those of the local time, the date of the filter is the
  day before.
\<close>

lemma after_date_sample:
  "getFullYear \<lparr>time_value = 1793556000000, tz_offset = 32400000\<rparr> = 2026 \<and>
   getMonth \<lparr>time_value = 1793556000000, tz_offset = 32400000\<rparr> = 10 \<and>
   getDate \<lparr>time_value = 1793556000000, tz_offset = 32400000\<rparr> = 2 \<and>
   split_T_0 (toISOString \<lparr>time_value = 1793556000000, tz_offset = 32400000\<rparr>) =
     ascii ''2026-11-01''"
  by code_simp

lemma optimizeSearchQuery_eq:
  "optimizeSearchQuery m t =
     m @ (if list_ex (\<lambda>p. test p m) DATE_PATTERNS
          then ascii '' '' @ Number_toString (getFullYear t) @ [nen] @
               Number_toString (getMonth t + 1) @ [gatsu]
          else []) @
         (if test IMMEDIACY_PATTERN m then ascii '' after:'' @ split_T_0 (toISOString t) else [])"
  by (simp add: optimizeSearchQuery_def Let_def)

lemma optimizeSearchQuery_extends:
  assumes "list_ex (\<lambda>p. test p m) DATE_PATTERNS \<or> test IMMEDIACY_PATTERN m"
  shows "\<exists>s. s \<noteq> [] \<and> optimizeSearchQuery m t = m @ s"
  using assms by (auto simp: optimizeSearchQuery_eq ascii_def)

lemma matched_append:
  assumes "list_ex (\<lambda>p. test p m) DATE_PATTERNS \<or> test IMMEDIACY_PATTERN m"
  shows "list_ex (\<lambda>p. test p (m @ s)) DATE_PATTERNS \<or> test IMMEDIACY_PATTERN (m @ s)"
  using assms by (auto simp: list_ex_iff intro: test_append)

text \<open>The second test looks for one of four literals, one of them a single character.\<close>

lemma IMMEDIACY_PATTERN_iff:
  "test IMMEDIACY_PATTERN m =
     (includes_str m saishin \<or> includes_str m genzai \<or> includes_str m [ima] \<or>
      includes_str m honjitsu)"
proof -
  have "test (Lit ima) m = test (Str [ima]) m"
    by simp
  then show ?thesis
    by (simp only: IMMEDIACY_PATTERN_def test_Alt test_Str)
qed

text \<open>
  C8, as amended. For a fixed current time, applying \<open>optimizeSearchQuery\<close> to its own
  result gives that result again exactly for the messages that match none of the
  patterns, which the function returns as they are. On every other message the second
  application appends to the result of the first.
\<close>

theorem query_enricher_idempotence:
  "(optimizeSearchQuery (optimizeSearchQuery m t) t = optimizeSearchQuery m t) =
   (\<not> list_ex (\<lambda>p. test p m) DATE_PATTERNS \<and> \<not> test IMMEDIACY_PATTERN m)"
proof (cases "list_ex (\<lambda>p. test p m) DATE_PATTERNS \<or> test IMMEDIACY_PATTERN m")
  case True
  obtain s where s: "s \<noteq> []" "optimizeSearchQuery m t = m @ s"
    using optimizeSearchQuery_extends [OF True] by blast
  obtain s' where s': "s' \<noteq> []" "optimizeSearchQuery (m @ s) t = (m @ s) @ s'"
    using optimizeSearchQuery_extends [OF matched_append [OF True]] by blast
  have "optimizeSearchQuery (optimizeSearchQuery m t) t \<noteq> optimizeSearchQuery m t"
    using s s' by simp
  then show ?thesis using True by blast
next
  case False
  then have "optimizeSearchQuery m t = m"
    by (simp add: optimizeSearchQuery_eq)
  then show ?thesis using False by simp
qed

text \<open>
  The claim as it was stated fails on the message U+6700 U+65B0 (latest) at
  2026-11-02: the second application appends the year and month and the date filter a
  second time.
\<close>

theorem query_enricher_idempotence_counterexample:
  "optimizeSearchQuery saishin
     \<lparr>time_value = 1793618580000, tz_offset = 0\<rparr> =
     saishin @ ascii '' 2026'' @ [nen] @ ascii ''11'' @ [gatsu] @ ascii '' after:2026-11-02'' \<and>
   optimizeSearchQuery
     (optimizeSearchQuery saishin
        \<lparr>time_value = 1793618580000, tz_offset = 0\<rparr>)
     \<lparr>time_value = 1793618580000, tz_offset = 0\<rparr> =
     saishin @ ascii '' 2026'' @ [nen] @ ascii ''11'' @ [gatsu] @ ascii '' after:2026-11-02'' @
     ascii '' 2026'' @ [nen] @ ascii ''11'' @ [gatsu] @ ascii '' after:2026-11-02''"
  by code_simp

text \<open>
  C9, as amended. For every message that matches the second pattern, the enriched query
  ends with the date filter, \<open> after:\<close> and a date, and on a host whose local time
  is UTC that date is the date of the current time, in the form of the ISO format. The
  year and month of the current time are appended before the filter exactly when one
  of \<open>DATE_PATTERNS\<close> matches too, which is so when the message contains one of the
  words for latest, now, this day, today, this week, this month and this year.
\<close>

theorem query_enricher_immediacy:
  assumes "test IMMEDIACY_PATTERN m"
  shows "(\<exists>d. optimizeSearchQuery m t =
                m @ (if list_ex (\<lambda>p. test p m) DATE_PATTERNS
                     then ascii '' '' @ Number_toString (getFullYear t) @ [nen] @
                          Number_toString (getMonth t + 1) @ [gatsu]
                     else []) @
                ascii '' after:'' @ d \<and>
              (tz_offset t = 0 \<longrightarrow>
                 d = iso_date (getFullYear t) (getMonth t + 1) (getDate t))) \<and>
         (includes_str m saishin \<or> includes_str m genzai \<or> includes_str m honjitsu \<or>
          includes_str m kyou \<or> includes_str m konshuu \<or> includes_str m kongetsu \<or>
          includes_str m kotoshi \<longrightarrow>
            list_ex (\<lambda>p. test p m) DATE_PATTERNS)"
proof (intro conjI impI)
  have "optimizeSearchQuery m t =
          m @ (if list_ex (\<lambda>p. test p m) DATE_PATTERNS
               then ascii '' '' @ Number_toString (getFullYear t) @ [nen] @
                    Number_toString (getMonth t + 1) @ [gatsu]
               else []) @
          ascii '' after:'' @ split_T_0 (toISOString t)"
    using assms by (simp add: optimizeSearchQuery_eq)
  moreover have "tz_offset t = 0 \<longrightarrow>
      split_T_0 (toISOString t) = iso_date (getFullYear t) (getMonth t + 1) (getDate t)"
    by (simp add: split_T_0_toISOString_utc)
  ultimately show "\<exists>d. optimizeSearchQuery m t =
                m @ (if list_ex (\<lambda>p. test p m) DATE_PATTERNS
                     then ascii '' '' @ Number_toString (getFullYear t) @ [nen] @
                          Number_toString (getMonth t + 1) @ [gatsu]
                     else []) @
                ascii '' after:'' @ d \<and>
              (tz_offset t = 0 \<longrightarrow>
                 d = iso_date (getFullYear t) (getMonth t + 1) (getDate t))"
    by blast
next
  assume "includes_str m saishin \<or> includes_str m genzai \<or> includes_str m honjitsu \<or>
          includes_str m kyou \<or> includes_str m konshuu \<or> includes_str m kongetsu \<or>
          includes_str m kotoshi"
  then show "list_ex (\<lambda>p. test p m) DATE_PATTERNS"
    by (auto simp: DATE_PATTERNS_def test_Alt test_Str)
qed

text \<open>
  An instance: the message U+73FE U+5728 (now) followed by \<open> weather\<close>, at
  2026-11-02 11:23 on a host in UTC.
\<close>

theorem query_enricher_immediacy_witness:
  "test IMMEDIACY_PATTERN (genzai @ ascii '' weather'') \<and>
   optimizeSearchQuery (genzai @ ascii '' weather'')
     \<lparr>time_value = 1793618580000, tz_offset = 0\<rparr> =
     genzai @ ascii '' weather 2026'' @ [nen] @ ascii ''11'' @ [gatsu] @ ascii '' after:2026-11-02''"
proof -
  have a: "test IMMEDIACY_PATTERN (genzai @ ascii '' weather'')"
    by (simp add: pattern_defs ascii_def)
  have b: "includes_str (genzai @ ascii '' weather'') genzai"
    by (simp add: genzai_def)
  have c: "Number_toString 2026 = ascii ''2026'' \<and> Number_toString 11 = ascii ''11''"
    by code_simp
  have d: "iso_date 2026 11 2 = ascii ''2026-11-02''"
    by code_simp
  have z: "tz_offset \<lparr>time_value = 1793618580000, tz_offset = 0\<rparr> = 0"
    by simp
  obtain dt where
    q: "optimizeSearchQuery (genzai @ ascii '' weather'') \<lparr>time_value = 1793618580000, tz_offset = 0\<rparr> =
          (genzai @ ascii '' weather'') @
          (if list_ex (\<lambda>p. test p (genzai @ ascii '' weather'')) DATE_PATTERNS
           then ascii '' '' @ Number_toString (getFullYear \<lparr>time_value = 1793618580000, tz_offset = 0\<rparr>) @ [nen] @
                Number_toString (getMonth \<lparr>time_value = 1793618580000, tz_offset = 0\<rparr> + 1) @ [gatsu]
           else []) @
          ascii '' after:'' @ dt"
    and dt: "dt = iso_date (getFullYear \<lparr>time_value = 1793618580000, tz_offset = 0\<rparr>)
                   (getMonth \<lparr>time_value = 1793618580000, tz_offset = 0\<rparr> + 1)
                   (getDate \<lparr>time_value = 1793618580000, tz_offset = 0\<rparr>)"
    and dp: "list_ex (\<lambda>p. test p (genzai @ ascii '' weather'')) DATE_PATTERNS"
    using query_enricher_immediacy [OF a, of "\<lparr>time_value = 1793618580000, tz_offset = 0\<rparr>"] b z
    by blast
  have "optimizeSearchQuery (genzai @ ascii '' weather'') \<lparr>time_value = 1793618580000, tz_offset = 0\<rparr> =
     genzai @ ascii '' weather 2026'' @ [nen] @ ascii ''11'' @ [gatsu] @ ascii '' after:2026-11-02''"
    unfolding q dt by (simp add: dp sample_date_fields c d) (simp add: ascii_def)
  then show ?thesis
    using a by simp
qed

text \<open>
  The claim as it was stated fails twice. The message U+4ECA alone (the first character
  of the words for today and this week, which also stands by itself) matches the second
  pattern and none of \<open>DATE_PATTERNS\<close>, and the enriched query has the date filter
  and no year and month. And on a host nine hours ahead of UTC, at 03:00 of 2026-11-02
  local time, the date of the filter for the message U+6700 U+65B0 (latest) is
  2026-11-01.
\<close>

theorem query_enricher_immediacy_counterexample:
  "test IMMEDIACY_PATTERN [ima] \<and>
   optimizeSearchQuery [ima] \<lparr>time_value = 1793618580000, tz_offset = 0\<rparr> =
     [ima] @ ascii '' after:2026-11-02'' \<and>
   test IMMEDIACY_PATTERN saishin \<and>
   getFullYear \<lparr>time_value = 1793556000000, tz_offset = 32400000\<rparr> = 2026 \<and>
   getMonth \<lparr>time_value = 1793556000000, tz_offset = 32400000\<rparr> + 1 = 11 \<and>
   getDate \<lparr>time_value = 1793556000000, tz_offset = 32400000\<rparr> = 2 \<and>
   optimizeSearchQuery saishin \<lparr>time_value = 1793556000000, tz_offset = 32400000\<rparr> =
     saishin @ ascii '' 2026'' @ [nen] @ ascii ''11'' @ [gatsu] @ ascii '' after:2026-11-01''"
  by code_simp

section \<open>The evidence collector\<close>

lemma scrape_page_fails:
  "fetch_fails pf b page \<Longrightarrow>
   scrape_page pf b page =
     \<lparr>wp_url = url page, wp_title = or_else (name page) (ascii ''Untitled''),
      wp_snippet = or_else (snippet page) [], wp_content = or_else (snippet page) [],
      wp_publishDate = search_date pf page\<rparr>"
  by (auto simp: fetch_fails_def scrape_page_def scrape_outer_def scrape_inner_def
      split: option.splits sum.splits)

lemma scrape_page_succeeds:
  "\<not> fetch_fails pf b page \<Longrightarrow>
   \<exists>pageText pd cleanUrl.
     pageText_r b = Inr pageText \<and> publishDate_r b = Inr pd \<and>
     URL_toString pf (url page) = Inr cleanUrl \<and>
     wp_url (scrape_page pf b page) = cleanUrl \<and>
     wp_content (scrape_page pf b page) = take 2000 pageText \<and>
     wp_publishDate (scrape_page pf b page) = (if truthy pd then pd else search_date pf page)"
  by (auto simp: fetch_fails_def scrape_page_def scrape_outer_def scrape_inner_def
      split: option.splits sum.splits)

lemma scrape_page_title_snippet:
  "wp_title (scrape_page pf b page) = or_else (name page) (ascii ''Untitled'') \<and>
   wp_snippet (scrape_page pf b page) = or_else (snippet page) []"
  by (auto simp: scrape_page_def scrape_outer_def scrape_inner_def
      split: option.splits sum.splits)

lemma webPageContents_of_nth:
  "i < length pages \<Longrightarrow>
   webPageContents_of pf sessions pages ! i = scrape_page pf (sessions i) (pages ! i)"
  by (simp add: webPageContents_of_def)

text \<open>
  C7. For every list of search results and whatever the page fetches do, the collector
  returns one record for each result, in the order of the results: the record at a
  position has the title and the snippet of the result at that position. Where the
  fetch fails, the record has the URL of the result, the snippet (or the empty string
  when there is none) as its content and the date of the search result, or null, as its
  publish date. Where it succeeds, the record has the URL in the form \<open>URL\<close>
  gives it, the first 2000 code units of the text extracted from the page as its
  content, and the date found in the page or else the date of the search result.
\<close>

theorem evidence_collector_isolation:
  "length (webPageContents_of pf sessions pages) = length pages \<and>
   (\<forall>i < length pages.
      wp_title (webPageContents_of pf sessions pages ! i) =
        or_else (name (pages ! i)) (ascii ''Untitled'') \<and>
      wp_snippet (webPageContents_of pf sessions pages ! i) = or_else (snippet (pages ! i)) [] \<and>
      (if fetch_fails pf (sessions i) (pages ! i)
       then wp_url (webPageContents_of pf sessions pages ! i) = url (pages ! i) \<and>
            wp_content (webPageContents_of pf sessions pages ! i) =
              or_else (snippet (pages ! i)) [] \<and>
            wp_publishDate (webPageContents_of pf sessions pages ! i) =
              search_date pf (pages ! i)
       else (\<exists>pageText pd cleanUrl.
               pageText_r (sessions i) = Inr pageText \<and> publishDate_r (sessions i) = Inr pd \<and>
               URL_toString pf (url (pages ! i)) = Inr cleanUrl \<and>
               wp_url (webPageContents_of pf sessions pages ! i) = cleanUrl \<and>
               wp_content (webPageContents_of pf sessions pages ! i) = take 2000 pageText \<and>
               wp_publishDate (webPageContents_of pf sessions pages ! i) =
                 (if truthy pd then pd else search_date pf (pages ! i)))))"
proof (intro conjI allI impI)
  show "length (webPageContents_of pf sessions pages) = length pages"
    by (simp add: webPageContents_of_def)
next
  fix i assume "i < length pages"
  then show "wp_title (webPageContents_of pf sessions pages ! i) =
        or_else (name (pages ! i)) (ascii ''Untitled'')"
    by (simp add: webPageContents_of_nth scrape_page_title_snippet)
next
  fix i assume "i < length pages"
  then show "wp_snippet (webPageContents_of pf sessions pages ! i) = or_else (snippet (pages ! i)) []"
    by (simp add: webPageContents_of_nth scrape_page_title_snippet)
next
  fix i assume i: "i < length pages"
  show "if fetch_fails pf (sessions i) (pages ! i)
       then wp_url (webPageContents_of pf sessions pages ! i) = url (pages ! i) \<and>
            wp_content (webPageContents_of pf sessions pages ! i) =
              or_else (snippet (pages ! i)) [] \<and>
            wp_publishDate (webPageContents_of pf sessions pages ! i) =
              search_date pf (pages ! i)
       else (\<exists>pageText pd cleanUrl.
               pageText_r (sessions i) = Inr pageText \<and> publishDate_r (sessions i) = Inr pd \<and>
               URL_toString pf (url (pages ! i)) = Inr cleanUrl \<and>
               wp_url (webPageContents_of pf sessions pages ! i) = cleanUrl \<and>
               wp_content (webPageContents_of pf sessions pages ! i) = take 2000 pageText \<and>
               wp_publishDate (webPageContents_of pf sessions pages ! i) =
                 (if truthy pd then pd else search_date pf (pages ! i)))"
  proof (cases "fetch_fails pf (sessions i) (pages ! i)")
    case True
    then show ?thesis
      using i by (simp add: webPageContents_of_nth scrape_page_fails)
  next
    case False
    then show ?thesis
      using i scrape_page_succeeds [OF False] by (simp add: webPageContents_of_nth)
  qed
qed

text \<open>
  An instance: three search results, of which the second times out. There are three
  records, the second with its snippet as content, the third with the page text.
\<close>

theorem evidence_collector_isolation_witness:
  "length
     (webPageContents_of platform_ok (\<lambda>i. if i = 1 then session_timeout else session_ok)
        [\<lparr>url = ascii ''https://a.example/'', name = Some (ascii ''A''),
          snippet = Some (ascii ''snippet A''), datePublished = None\<rparr>,
         \<lparr>url = ascii ''https://b.example/'', name = None,
          snippet = Some (ascii ''snippet B''), datePublished = Some (ascii ''2026-11-01'')\<rparr>,
         \<lparr>url = ascii ''https://c.example/'', name = Some (ascii ''C''),
          snippet = None, datePublished = None\<rparr>]) = 3 \<and>
   wp_content
     (webPageContents_of platform_ok (\<lambda>i. if i = 1 then session_timeout else session_ok)
        [\<lparr>url = ascii ''https://a.example/'', name = Some (ascii ''A''),
          snippet = Some (ascii ''snippet A''), datePublished = None\<rparr>,
         \<lparr>url = ascii ''https://b.example/'', name = None,
          snippet = Some (ascii ''snippet B''), datePublished = Some (ascii ''2026-11-01'')\<rparr>,
         \<lparr>url = ascii ''https://c.example/'', name = Some (ascii ''C''),
          snippet = None, datePublished = None\<rparr>] ! 1) = ascii ''snippet B'' \<and>
   wp_content
     (webPageContents_of platform_ok (\<lambda>i. if i = 1 then session_timeout else session_ok)
        [\<lparr>url = ascii ''https://a.example/'', name = Some (ascii ''A''),
          snippet = Some (ascii ''snippet A''), datePublished = None\<rparr>,
         \<lparr>url = ascii ''https://b.example/'', name = None,
          snippet = Some (ascii ''snippet B''), datePublished = Some (ascii ''2026-11-01'')\<rparr>,
         \<lparr>url = ascii ''https://c.example/'', name = Some (ascii ''C''),
          snippet = None, datePublished = None\<rparr>] ! 2) = ascii ''Page text''"
proof -
  let ?pages = "[\<lparr>url = ascii ''https://a.example/'', name = Some (ascii ''A''),
          snippet = Some (ascii ''snippet A''), datePublished = None\<rparr>,
         \<lparr>url = ascii ''https://b.example/'', name = None,
          snippet = Some (ascii ''snippet B''), datePublished = Some (ascii ''2026-11-01'')\<rparr>,
         \<lparr>url = ascii ''https://c.example/'', name = Some (ascii ''C''),
          snippet = None, datePublished = None\<rparr>]"
  let ?s = "\<lambda>i::nat. if i = 1 then session_timeout else session_ok"
  let ?r = "webPageContents_of platform_ok ?s ?pages"
  note th = evidence_collector_isolation [of platform_ok ?s ?pages]
  have len: "length ?r = 3"
    using th [THEN conjunct1] by simp
  have f1: "fetch_fails platform_ok (?s 1) (?pages ! 1)"
    by (simp add: fetch_fails_def session_timeout_def session_ok_def)
  have f2: "\<not> fetch_fails platform_ok (?s 2) (?pages ! 2)"
    by (simp add: fetch_fails_def session_ok_def platform_ok_def)
  have "wp_content (?r ! 1) = or_else (snippet (?pages ! 1)) []"
    using th [THEN conjunct2, rule_format, of 1] f1 by simp
  then have c1: "wp_content (?r ! 1) = ascii ''snippet B''"
    by (simp add: or_else_def ascii_def)
  have "\<exists>pageText. pageText_r (?s 2) = Inr pageText \<and> wp_content (?r ! 2) = take 2000 pageText"
    using th [THEN conjunct2, rule_format, of 2] f2 by auto
  then have c2: "wp_content (?r ! 2) = ascii ''Page text''"
    by (auto simp: session_ok_def ascii_def)
  show ?thesis
    using len c1 c2 by simp
qed

section \<open>The request handlers\<close>

lemmas handler_defs = ChatAPISimple_def ChatAPIDoc_def ChatAPIWeb_def ChatAPIWeb_try_def
  handleChatCompletion_def completions_create_def addMessage_def getMessages_def
  findRelevantDocuments_def env_ok_def props_gpt3_def world_empty_def topHistory_of_def
  optimizeSearchQuery_def freshness_of_def

lemma addMessage_cases:
  "(\<exists>e. addMessage ev m c w = (Some e, w)) \<or>
   addMessage ev m c w = (None, w\<lparr>history := history w @ [(m, c)]\<rparr>)"
  by (simp add: addMessage_def split: option.splits)

lemma ChatAPISimple_model:
  "create_calls (snd (ChatAPISimple ev props w)) = create_calls w \<or>
   (\<exists>req. create_calls (snd (ChatAPISimple ev props w)) = create_calls w @ [req] \<and>
          model req = ascii ''gpt-4o-mini'')"
  using addMessage_cases [of ev "\<lparr>role = user, content = lastHumanMessage (projr (initAndGuardChatSession ev props))\<rparr>" None w]
  by (auto simp: ChatAPISimple_def completions_create_def Let_def
      split: sum.splits option.splits prod.splits)

lemma ChatAPIDoc_model:
  "create_calls (snd (ChatAPIDoc ev props w)) = create_calls w \<or>
   (\<exists>req. create_calls (snd (ChatAPIDoc ev props w)) = create_calls w @ [req] \<and>
          model req = ascii ''gpt-4o-mini'')"
  by (auto simp: ChatAPIDoc_def completions_create_def Let_def
      split: sum.splits option.splits prod.splits)

lemma handleChatCompletion_model:
  "create_calls (snd (handleChatCompletion ev q th m wp ts w)) = create_calls w \<or>
   (\<exists>req. create_calls (snd (handleChatCompletion ev q th m wp ts w)) = create_calls w @ [req] \<and>
          model req = m)"
  using addMessage_cases [of ev "\<lparr>role = user, content = q\<rparr>" None w]
  by (auto simp: handleChatCompletion_def completions_create_def Let_def
      split: sum.splits option.splits prod.splits)

lemma ChatAPIWeb_try_model:
  "create_calls (snd (ChatAPIWeb_try ev props w)) = create_calls w \<or>
   (\<exists>req. create_calls (snd (ChatAPIWeb_try ev props w)) = create_calls w @ [req] \<and>
          model req = (if chatAPIModel props = ascii ''GPT-3'' then ascii ''gpt-35-turbo-16k''
                       else ascii ''gpt-4o-mini''))"
  unfolding ChatAPIWeb_try_def Let_def
  using handleChatCompletion_model
  by (auto split: sum.splits option.splits)

lemma ChatAPIWeb_snd: "snd (ChatAPIWeb ev props w) = snd (ChatAPIWeb_try ev props w)"
  by (simp add: ChatAPIWeb_def split: prod.splits sum.splits)

text \<open>
  C4, as amended. A handler sends the completion API at most one request. In the simple
  and the document variant its model is \<open>gpt-4o-mini\<close>, whatever the
  \<open>chatAPIModel\<close> flag of the request is. In the web variant it is
  \<open>gpt-35-turbo-16k\<close> when the flag is \<open>GPT-3\<close>, and \<open>gpt-4o-mini\<close> for every
  other value of the flag.
\<close>

theorem model_selection:
  "(create_calls (snd (ChatAPISimple ev props w)) = create_calls w \<or>
    (\<exists>req. create_calls (snd (ChatAPISimple ev props w)) = create_calls w @ [req] \<and>
           model req = ascii ''gpt-4o-mini'')) \<and>
   (create_calls (snd (ChatAPIDoc ev props w)) = create_calls w \<or>
    (\<exists>req. create_calls (snd (ChatAPIDoc ev props w)) = create_calls w @ [req] \<and>
           model req = ascii ''gpt-4o-mini'')) \<and>
   (create_calls (snd (ChatAPIWeb ev props w)) = create_calls w \<or>
    (\<exists>req. create_calls (snd (ChatAPIWeb ev props w)) = create_calls w @ [req] \<and>
           model req = (if chatAPIModel props = ascii ''GPT-3'' then ascii ''gpt-35-turbo-16k''
                        else ascii ''gpt-4o-mini'')))"
  unfolding ChatAPIWeb_snd
  using ChatAPISimple_model [of ev props w] ChatAPIDoc_model [of ev props w]
    ChatAPIWeb_try_model [of ev props w]
  by blast

text \<open>
  The claim as it was stated fails in the web variant: with the flag \<open>GPT-3\<close> and
  collaborators that all succeed, the one request sent has the model
  \<open>gpt-35-turbo-16k\<close>.
\<close>

theorem model_selection_counterexample:
  "map model (create_calls (snd (ChatAPIWeb env_ok props_gpt3 world_empty))) =
     [ascii ''gpt-35-turbo-16k'']"
  by (simp add: handler_defs Let_def)

text \<open>With the same collaborators the other handlers, and the web handler on another flag, do send a request.\<close>

lemma fixed_model_sample:
  "map model (create_calls (snd (ChatAPISimple env_ok props_gpt3 world_empty))) =
     [ascii ''gpt-4o-mini''] \<and>
   map model (create_calls (snd (ChatAPIDoc env_ok props_gpt3 world_empty))) =
     [ascii ''gpt-4o-mini''] \<and>
   map model (create_calls (snd (ChatAPIWeb env_ok (props_gpt3\<lparr>chatAPIModel := ascii ''GPT-4''\<rparr>) world_empty))) =
     [ascii ''gpt-4o-mini'']"
  by (simp add: handler_defs Let_def ascii_def)


lemma catch_block_not_streaming: "catch_block pf e \<noteq> Inr (StreamingTextResponse out cb)"
  by (simp add: catch_block_def new_Response_def split: thrown.splits)

text \<open>
  The \<open>catch\<close> block itself throws when the text of the error is not a reason phrase,
  as for a message in Japanese.
\<close>

lemma catch_block_sample:
  "catch_block platform_ok (ErrorObject (ascii ''Error'') saishin) =
     Inl (ErrorObject (ascii ''TypeError'') (ascii ''Invalid statusText'')) \<and>
   fst (ChatAPIWeb env_japanese_error props_gpt3 world_empty) =
     Inl (ErrorObject (ascii ''TypeError'') (ascii ''Invalid statusText''))"
  by (simp add: handler_defs env_japanese_error_def catch_block_def new_Response_def
      Error_toString_def valid_statusText_def platform_ok_def saishin_def ascii_def Let_def)





















lemma ChatAPIDoc_history: "history (snd (ChatAPIDoc ev props w)) = history w"
  by (auto simp: ChatAPIDoc_def completions_create_def Let_def
      split: sum.splits option.splits prod.splits)

lemma onCompletion_doc_ok:
  assumes "\<forall>h m. addMessage_r ev h m = None"
  shows "onCompletion_doc ev q ctx completion w' =
           (None, w'\<lparr>history := history w' @
                       [(\<lparr>role = user, content = q\<rparr>, None),
                        (\<lparr>role = assistant, content = completion\<rparr>, Some ctx)]\<rparr>)"
  using assms by (simp add: onCompletion_doc_def addMessage_def)

lemma ChatAPIDoc_streaming:
  assumes "fst (ChatAPIDoc ev props w) = Inr (StreamingTextResponse out cb)"
  shows "\<exists>sess docs req chunks.
           initAndGuardChatSession ev props = Inr sess \<and>
           findRelevantDocuments ev (lastHumanMessage sess) (chatDoc props) = Inr docs \<and>
           create ev req = Inr chunks \<and>
           out = customTransformer (citationData_of docs) chunks \<and>
           cb = onCompletion_doc ev (lastHumanMessage sess) (context_of docs) (concat chunks)"
  using assms
  using catch_block_not_streaming
  by (auto simp: ChatAPIDoc_def completions_create_def Let_def
      split: sum.splits option.splits prod.splits)

text \<open>
  C10. The document handler leaves the history as it found it, whatever its
  collaborators do, and so also when the completion call throws and the handler returns
  the 500 response. When it returns a streaming response and the store accepts the
  writes, the callback run at the end of the stream appends two messages to the
  history as it then is: the user's message, without context, and then the assistant's
  message, whose content is the whole completion, with the retrieval context.
\<close>

theorem doc_history_atomicity:
  "history (snd (ChatAPIDoc ev props w)) = history w \<and>
   (fst (ChatAPIDoc ev1 props1 w1) = Inr (StreamingTextResponse out cb) \<and>
    (\<forall>h m. addMessage_r ev1 h m = None) \<longrightarrow>
      (\<exists>sess docs req chunks.
         initAndGuardChatSession ev1 props1 = Inr sess \<and>
         findRelevantDocuments ev1 (lastHumanMessage sess) (chatDoc props1) = Inr docs \<and>
         create ev1 req = Inr chunks \<and>
         cb w' =
           (None, w'\<lparr>history := history w' @
                       [(\<lparr>role = user, content = lastHumanMessage sess\<rparr>, None),
                        (\<lparr>role = assistant, content = concat chunks\<rparr>,
                         Some (context_of docs))]\<rparr>)))"
proof (intro conjI impI)
  show "history (snd (ChatAPIDoc ev props w)) = history w"
    by (rule ChatAPIDoc_history)
next
  assume h: "fst (ChatAPIDoc ev1 props1 w1) = Inr (StreamingTextResponse out cb) \<and>
    (\<forall>h m. addMessage_r ev1 h m = None)"
  then obtain sess docs req chunks where
    1: "initAndGuardChatSession ev1 props1 = Inr sess"
    and 2: "findRelevantDocuments ev1 (lastHumanMessage sess) (chatDoc props1) = Inr docs"
    and 3: "create ev1 req = Inr chunks"
    and 4: "cb = onCompletion_doc ev1 (lastHumanMessage sess) (context_of docs) (concat chunks)"
    using ChatAPIDoc_streaming [of ev1 props1 w1 out cb] by blast
  have "cb w' =
           (None, w'\<lparr>history := history w' @
                       [(\<lparr>role = user, content = lastHumanMessage sess\<rparr>, None),
                        (\<lparr>role = assistant, content = concat chunks\<rparr>,
                         Some (context_of docs))]\<rparr>)"
    using h by (simp add: 4 onCompletion_doc_ok)
  then show "\<exists>sess docs req chunks.
         initAndGuardChatSession ev1 props1 = Inr sess \<and>
         findRelevantDocuments ev1 (lastHumanMessage sess) (chatDoc props1) = Inr docs \<and>
         create ev1 req = Inr chunks \<and>
         cb w' =
           (None, w'\<lparr>history := history w' @
                       [(\<lparr>role = user, content = lastHumanMessage sess\<rparr>, None),
                        (\<lparr>role = assistant, content = concat chunks\<rparr>,
                         Some (context_of docs))]\<rparr>)"
    using 1 2 3 by blast
qed

text \<open>
  An instance: with a completion call that throws, and with collaborators that all
  succeed, the history is empty when the handler returns; in the second case the
  callback then writes the two messages.
\<close>

theorem doc_history_atomicity_witness:
  "history (snd (ChatAPIDoc env_no_completion props_gpt3 world_empty)) = [] \<and>
   history (snd (ChatAPIDoc env_ok props_gpt3 world_empty)) = [] \<and>
   (\<exists>out cb. fst (ChatAPIDoc env_ok props_gpt3 world_empty) = Inr (StreamingTextResponse out cb) \<and>
      history (snd (cb world_empty)) =
        [(\<lparr>role = user, content = ascii ''hello''\<rparr>, None),
         (\<lparr>role = assistant, content = ascii ''Hi there''\<rparr>, Some [])])"
proof -
  have a: "history (snd (ChatAPIDoc env_no_completion props_gpt3 world_empty)) = []"
    using doc_history_atomicity [of env_no_completion props_gpt3 world_empty, THEN conjunct1]
    by (simp add: world_empty_def)
  have b: "history (snd (ChatAPIDoc env_ok props_gpt3 world_empty)) = []"
    using doc_history_atomicity [of env_ok props_gpt3 world_empty, THEN conjunct1]
    by (simp add: world_empty_def)
  obtain out cb where r: "fst (ChatAPIDoc env_ok props_gpt3 world_empty) = Inr (StreamingTextResponse out cb)"
    by (simp add: handler_defs Let_def)
  have ok: "\<forall>h m. addMessage_r env_ok h m = None"
    by (simp add: env_ok_def)
  obtain sess docs req chunks where
    1: "initAndGuardChatSession env_ok props_gpt3 = Inr sess"
    and 2: "findRelevantDocuments env_ok (lastHumanMessage sess) (chatDoc props_gpt3) = Inr docs"
    and 3: "create env_ok req = Inr chunks"
    and 4: "cb world_empty =
           (None, world_empty\<lparr>history := history world_empty @
                       [(\<lparr>role = user, content = lastHumanMessage sess\<rparr>, None),
                        (\<lparr>role = assistant, content = concat chunks\<rparr>,
                         Some (context_of docs))]\<rparr>)"
    using doc_history_atomicity [of _ _ _ env_ok props_gpt3 world_empty out cb world_empty, THEN conjunct2] r ok
    by blast
  have s: "lastHumanMessage sess = ascii ''hello''"
    using 1 by (auto simp: env_ok_def)
  have d: "docs = []"
    using 2 by (auto simp: env_ok_def findRelevantDocuments_def)
  have c: "concat chunks = ascii ''Hi there''"
    using 3 by (auto simp: env_ok_def ascii_def)
  have "history (snd (cb world_empty)) =
        [(\<lparr>role = user, content = ascii ''hello''\<rparr>, None),
         (\<lparr>role = assistant, content = ascii ''Hi there''\<rparr>, Some [])]"
    unfolding 4 by (simp add: s d c world_empty_def context_of_def)
  then show ?thesis
    using a b r by blast
qed

end
